theory Spec2Isabelle
  imports Complex_Main "HOL-Library.Word" "HOL-Library.Log_Nat"
begin

text \<open>
  A model of \<open>src/index.js\<close> of market-cli: the adapters \<open>fetchChinaStock\<close>,
  \<open>fetchCrypto\<close> and \<open>fetchGold\<close>, \<open>formatPrice\<close>, and the aggregator
  \<open>fetchAllPrices\<close>. Strings are sequences of UTF-16 code units, Numbers are IEEE
  doubles with their rounding, objects are lists of properties with the members
  inherited from \<open>Object.prototype\<close>, a thrown error is a value, and the HTTP client and
  \<open>Math.random\<close> are parameters. \<open>main\<close> runs the same four loops as
  \<open>fetchAllPrices\<close> and prints each value instead of storing it; it is not modelled.
\<close>

section \<open>Strings\<close>

text \<open>
  A JavaScript string is a sequence of UTF-16 code units: \<open>length\<close> counts code units,
  \<open>includes\<close>, \<open>split\<close> and a regular expression without the \<open>u\<close> flag work on code
  units. ASCII literals of the source are written through \<open>utf16\<close>.
\<close>

type_synonym jsstring = "16 word list"

definition utf16 :: "string \<Rightarrow> jsstring" where
  "utf16 s = map (\<lambda>c. of_nat (of_char c)) s"

definition dquote :: "16 word" where
  "dquote = 0x22"

definition comma :: "16 word" where
  "comma = 0x2C"

text \<open>\<open>s.includes(pat)\<close>: \<open>pat\<close> occurs in \<open>s\<close> as a contiguous run of code units.\<close>

fun str_includes :: "jsstring \<Rightarrow> jsstring \<Rightarrow> bool" where
  "str_includes [] pat = (pat = [])"
| "str_includes (c # cs) pat = (take (length pat) (c # cs) = pat \<or> str_includes cs pat)"

text \<open>
  \<open>s.match(/"([^"]+)"/)\<close>: the leftmost position where a double quote is followed by
  one or more code units that are not a double quote and then by a double quote. The
  result is capture group 1 of the match, \<open>None\<close> when the pattern matches nowhere
  (\<open>match\<close> returns \<open>null\<close>). The class \<open>[^"]\<close> cannot step over a quote, so at a
  given start the only candidate is the maximal run.
\<close>

fun match_quoted :: "jsstring \<Rightarrow> jsstring option" where
  "match_quoted [] = None"
| "match_quoted (c # cs) =
     (if c = dquote \<and> takeWhile (\<lambda>x. x \<noteq> dquote) cs \<noteq> [] \<and> dropWhile (\<lambda>x. x \<noteq> dquote) cs \<noteq> []
      then Some (takeWhile (\<lambda>x. x \<noteq> dquote) cs)
      else match_quoted cs)"

text \<open>\<open>s.split(',')\<close>: the fields between separators; never the empty array.\<close>

fun str_split :: "16 word \<Rightarrow> jsstring \<Rightarrow> jsstring list" where
  "str_split sep [] = [[]]"
| "str_split sep (c # cs) =
     (if c = sep then [] # str_split sep cs
      else (case str_split sep cs of f # fs \<Rightarrow> (c # f) # fs | [] \<Rightarrow> [[c]]))"

section \<open>Numbers\<close>

text \<open>
  A JavaScript Number is an IEEE 754 binary64 value: NaN, the two infinities, the two
  zeros and the finite non-zero doubles, which are rationals. \<open>Fin 0\<close> is \<open>+0\<close>.
\<close>

datatype number = NaN | PosInf | NegInf | NegZero | Fin rat

text \<open>\<open>ilog2 a\<close> is the binary exponent of a positive rational: \<open>2^e \<le> a < 2^(e+1)\<close>.\<close>

definition ilog2 :: "rat \<Rightarrow> int" where
  "ilog2 a =
     (let d = bitlen (fst (quotient_of a)) - bitlen (snd (quotient_of a))
      in if 2 powi d \<le> a then d else d - 1)"

text \<open>Rounding to the nearest integer, ties to the even one.\<close>

definition round_even :: "rat \<Rightarrow> int" where
  "round_even x =
     (let f = \<lfloor>x\<rfloor>; d = x - of_int f
      in if d < 1 / 2 then f else if 1 / 2 < d then f + 1 else if even f then f else f + 1)"

text \<open>
  The exponent of the binade of \<open>x\<close>, with the subnormal range below \<open>2^-1022\<close>
  counted as part of the lowest binade, and the spacing of the doubles there: 53
  significant bits, \<open>2^-1074\<close> at the bottom.
\<close>

definition bexp :: "rat \<Rightarrow> int" where
  "bexp x = max (ilog2 \<bar>x\<bar>) (- 1022)"

definition ulp :: "rat \<Rightarrow> rat" where
  "ulp x = 2 powi (bexp x - 52)"

text \<open>Round to nearest, ties to even, before the range check.\<close>

definition rne :: "rat \<Rightarrow> rat" where
  "rne x = (if x = 0 then 0 else of_int (round_even (x / ulp x)) * ulp x)"

text \<open>
  The binary64 result of an exact non-zero value: overflow gives an infinity, a result
  that rounds to zero keeps the sign. The exact value 0 gives \<open>+0\<close>; the operations
  below decide the sign of their zero results themselves.
\<close>

definition round_double :: "rat \<Rightarrow> number" where
  "round_double x =
     (let y = rne x
      in if 2 powi 1024 \<le> \<bar>y\<bar> then (if x < 0 then NegInf else PosInf)
         else if y = 0 \<and> x < 0 then NegZero
         else Fin y)"

text \<open>A numeric literal of the source text denotes the double nearest to its decimal value.\<close>

definition lit :: "rat \<Rightarrow> number" where
  "lit q = round_double q"

fun is_zero :: "number \<Rightarrow> bool" where
  "is_zero NegZero = True"
| "is_zero (Fin q) = (q = 0)"
| "is_zero _ = False"

fun is_negative :: "number \<Rightarrow> bool" where
  "is_negative NegInf = True"
| "is_negative NegZero = True"
| "is_negative (Fin q) = (q < 0)"
| "is_negative _ = False"

fun fneg :: "number \<Rightarrow> number" where
  "fneg NaN = NaN"
| "fneg PosInf = NegInf"
| "fneg NegInf = PosInf"
| "fneg NegZero = Fin 0"
| "fneg (Fin q) = (if q = 0 then NegZero else Fin (- q))"

text \<open>Number addition (the \<open>+\<close> and \<open>-\<close> of two Numbers).\<close>

fun fadd :: "number \<Rightarrow> number \<Rightarrow> number" where
  "fadd NaN _ = NaN"
| "fadd _ NaN = NaN"
| "fadd PosInf NegInf = NaN"
| "fadd NegInf PosInf = NaN"
| "fadd PosInf _ = PosInf"
| "fadd _ PosInf = PosInf"
| "fadd NegInf _ = NegInf"
| "fadd _ NegInf = NegInf"
| "fadd NegZero y = y"
| "fadd x NegZero = x"
| "fadd (Fin a) (Fin b) = round_double (a + b)"

definition fsub :: "number \<Rightarrow> number \<Rightarrow> number" where
  "fsub x y = fadd x (fneg y)"

text \<open>Number multiplication.\<close>

fun fmul :: "number \<Rightarrow> number \<Rightarrow> number" where
  "fmul NaN _ = NaN"
| "fmul _ NaN = NaN"
| "fmul x y =
     (if (x = PosInf \<or> x = NegInf) \<and> is_zero y \<or> is_zero x \<and> (y = PosInf \<or> y = NegInf) then NaN
      else if x = PosInf \<or> x = NegInf \<or> y = PosInf \<or> y = NegInf
        then (if is_negative x = is_negative y then PosInf else NegInf)
      else if is_zero x \<or> is_zero y
        then (if is_negative x = is_negative y then Fin 0 else NegZero)
      else (case (x, y) of (Fin a, Fin b) \<Rightarrow> round_double (a * b) | _ \<Rightarrow> NaN))"


fun ge_zero :: "number \<Rightarrow> bool" where
  "ge_zero NaN = False"
| "ge_zero PosInf = True"
| "ge_zero NegInf = False"
| "ge_zero NegZero = True"
| "ge_zero (Fin q) = (0 \<le> q)"

section \<open>Values and objects\<close>

text \<open>
  The values the program handles: what \<open>JSON.parse\<close> produces, \<open>undefined\<close>, and the
  members every plain object inherits from \<open>Object.prototype\<close>. \<open>ProtoMember k\<close> is
  the value read through the inherited key \<open>k\<close>: a built-in function, and for
  \<open>__proto__\<close> the prototype object. A plain object is the list of its own properties in
  creation order.
\<close>

datatype jsval =
    Undefined
  | Null
  | Bool bool
  | Num number
  | Str jsstring
  | Arr "jsval list"
  | Obj "(jsstring \<times> jsval) list"
  | ProtoMember jsstring

datatype error = TypeError | NetworkError

definition object_prototype_keys :: "jsstring list" where
  "object_prototype_keys =
     [utf16 ''constructor'', utf16 ''__defineGetter__'', utf16 ''__defineSetter__'',
      utf16 ''hasOwnProperty'', utf16 ''__lookupGetter__'', utf16 ''__lookupSetter__'',
      utf16 ''isPrototypeOf'', utf16 ''propertyIsEnumerable'', utf16 ''toString'',
      utf16 ''valueOf'', utf16 ''__proto__'', utf16 ''toLocaleString'']"

definition object_prototype :: "jsstring \<Rightarrow> jsval" where
  "object_prototype k = (if k \<in> set object_prototype_keys then ProtoMember k else Undefined)"

text \<open>\<open>o[k]\<close> on a plain object: the own property, else the inherited one, else \<open>undefined\<close>.\<close>

definition obj_get :: "(jsstring \<times> jsval) list \<Rightarrow> jsstring \<Rightarrow> jsval" where
  "obj_get ps k = (case map_of ps k of Some v \<Rightarrow> v | None \<Rightarrow> object_prototype k)"

definition is_digit :: "16 word \<Rightarrow> bool" where
  "is_digit c = (0x30 \<le> c \<and> c \<le> 0x39)"

definition digits_val :: "jsstring \<Rightarrow> nat" where
  "digits_val ds = foldl (\<lambda>a c. 10 * a + (unat c - 48)) 0 ds"

text \<open>
  A property key is an array index when it is the canonical decimal form of an integer
  below \<open>2^32 - 1\<close>.
\<close>

definition array_index :: "jsstring \<Rightarrow> nat option" where
  "array_index k =
     (if k \<noteq> [] \<and> list_all is_digit k \<and> (k = [0x30] \<or> hd k \<noteq> 0x30) \<and> digits_val k < 2 ^ 32 - 1
      then Some (digits_val k) else None)"

text \<open>
  \<open>v[k]\<close> on any value. Reading a property of \<open>undefined\<close> or \<open>null\<close> throws. Strings and
  arrays have \<open>length\<close> and their index properties. The members of the type-specific
  prototypes (\<open>String.prototype\<close>, \<open>Array.prototype\<close>, \<open>Function.prototype\<close>, ...) are
  not modelled: the keys this program reads by name (\<open>cny\<close>, \<open>cny_24h_change\<close>,
  \<open>base\<close>, \<open>change\<close>) and the computed keys of \<open>fetchCrypto\<close> name none of them.
\<close>

definition get_member :: "jsval \<Rightarrow> jsstring \<Rightarrow> error + jsval" where
  "get_member v k =
     (case v of
        Undefined \<Rightarrow> Inl TypeError
      | Null \<Rightarrow> Inl TypeError
      | Obj ps \<Rightarrow> Inr (obj_get ps k)
      | Str s \<Rightarrow>
          Inr (if k = utf16 ''length'' then Num (Fin (of_nat (length s)))
               else (case array_index k of
                       Some i \<Rightarrow> if i < length s then Str [s ! i] else object_prototype k
                     | None \<Rightarrow> object_prototype k))
      | Arr xs \<Rightarrow>
          Inr (if k = utf16 ''length'' then Num (Fin (of_nat (length xs)))
               else (case array_index k of
                       Some i \<Rightarrow> if i < length xs then xs ! i else object_prototype k
                     | None \<Rightarrow> object_prototype k))
      | _ \<Rightarrow> Inr (object_prototype k))"

text \<open>\<open>ToBoolean\<close>, as \<open>if (data)\<close> and \<open>data ? ... : ...\<close> apply it.\<close>

fun truthy :: "jsval \<Rightarrow> bool" where
  "truthy Undefined = False"
| "truthy Null = False"
| "truthy (Bool b) = b"
| "truthy (Num n) = (n \<noteq> NaN \<and> \<not> is_zero n)"
| "truthy (Str s) = (s \<noteq> [])"
| "truthy _ = True"

section \<open>The world outside the program\<close>

text \<open>
  The program's results depend on what the HTTP client returns, on \<open>Math.random\<close> and
  on the runtime's rendering of numbers. They are parameters: \<open>net i req\<close> is the
  outcome of the request \<open>req\<close> issued after \<open>i\<close> earlier requests, either a thrown
  error or the \<open>data\<close> of the response; \<open>rand i\<close> is the result of the call of
  \<open>Math.random\<close> after \<open>i\<close> earlier calls; \<open>to_str\<close> is \<open>ToString\<close> on Numbers;
  \<open>to_fixed\<close> is \<open>Number.prototype.toFixed\<close>.
\<close>

record request =
  url :: jsstring
  headers :: "(jsstring \<times> jsstring) list"

record world =
  net :: "nat \<Rightarrow> request \<Rightarrow> error + jsval"
  rand :: "nat \<Rightarrow> number"
  to_str :: "number \<Rightarrow> jsstring"
  to_fixed :: "number \<Rightarrow> nat \<Rightarrow> jsstring"

text \<open>
  What a run does is recorded in a trace: each dispatch of the aggregator to an
  adapter, each HTTP request, each execution of the quote pattern match and each call of
  \<open>Math.random\<close>, in order.
\<close>

datatype adapter = ChinaStock | Gold | Crypto

datatype event =
    Dispatch adapter jsstring
  | HttpGet request
  | RegexMatch jsstring
  | RandomDraw

type_synonym trace = "event list"

fun is_HttpGet :: "event \<Rightarrow> bool" where
  "is_HttpGet (HttpGet _) = True"
| "is_HttpGet _ = False"

fun is_RegexMatch :: "event \<Rightarrow> bool" where
  "is_RegexMatch (RegexMatch _) = True"
| "is_RegexMatch _ = False"

fun is_Dispatch :: "event \<Rightarrow> bool" where
  "is_Dispatch (Dispatch _ _) = True"
| "is_Dispatch _ = False"

definition axios_get :: "world \<Rightarrow> request \<Rightarrow> trace \<Rightarrow> (error + jsval) \<times> trace" where
  "axios_get W req tr = (net W (length (filter is_HttpGet tr)) req, tr @ [HttpGet req])"

definition math_random :: "world \<Rightarrow> trace \<Rightarrow> number \<times> trace" where
  "math_random W tr = (rand W (length (filter (\<lambda>e. e = RandomDraw) tr)), tr @ [RandomDraw])"

text \<open>\<open>Array.prototype.join\<close> on the converted elements: the first error thrown, else the
  strings with commas between them.\<close>

fun join_elements :: "(error + jsstring) list \<Rightarrow> error + jsstring" where
  "join_elements [] = Inr []"
| "join_elements [x] = x"
| "join_elements (x # y # ys) =
     (case x of
        Inl e \<Rightarrow> Inl e
      | Inr s \<Rightarrow> (case join_elements (y # ys) of Inl e \<Rightarrow> Inl e | Inr r \<Rightarrow> Inr (s @ comma # r)))"

text \<open>
  \<open>ToString\<close>, as template literals and computed property keys apply it. A built-in
  function prints as its native-code text under its own name (\<open>Object\<close> for
  \<open>constructor\<close>). An object is converted through its \<open>toString\<close> and \<open>valueOf\<close>:
  a plain object with the inherited \<open>toString\<close> prints as \<open>[object Object]\<close>; one with
  an own property \<open>toString\<close>, which holds a value of JSON and is not callable, falls
  back to \<open>valueOf\<close>, which gives no primitive value either way, and the conversion
  throws a \<open>TypeError\<close>. An array prints its elements joined by commas, \<open>null\<close> and
  \<open>undefined\<close> as empty strings, and throws when an element does.
\<close>

fun ToString :: "world \<Rightarrow> jsval \<Rightarrow> error + jsstring" where
  "ToString W Undefined = Inr (utf16 ''undefined'')"
| "ToString W Null = Inr (utf16 ''null'')"
| "ToString W (Bool b) = Inr (if b then utf16 ''true'' else utf16 ''false'')"
| "ToString W (Num n) = Inr (to_str W n)"
| "ToString W (Str s) = Inr s"
| "ToString W (Arr xs) =
     join_elements (map (\<lambda>x. if x = Undefined \<or> x = Null then Inr [] else ToString W x) xs)"
| "ToString W (Obj ps) =
     (if map_of ps (utf16 ''toString'') = None then Inr (utf16 ''[object Object]'')
      else Inl TypeError)"
| "ToString W (ProtoMember k) =
     Inr (if k = utf16 ''__proto__'' then utf16 ''[object Object]''
          else utf16 ''function '' @ (if k = utf16 ''constructor'' then utf16 ''Object'' else k)
               @ utf16 ''() { [native code] }'')"

text \<open>
  \<open>ToNumber\<close> on \<open>undefined\<close>, \<open>null\<close>, booleans and Numbers, the only operands that
  \<open>js_add\<close> converts; the conversion of strings and objects is not modelled.
\<close>

fun ToNumber :: "jsval \<Rightarrow> number" where
  "ToNumber Undefined = NaN"
| "ToNumber Null = Fin 0"
| "ToNumber (Bool b) = (if b then Fin 1 else Fin 0)"
| "ToNumber (Num n) = n"
| "ToNumber _ = NaN"

fun is_primitive_number :: "jsval \<Rightarrow> bool" where
  "is_primitive_number Undefined = True"
| "is_primitive_number Null = True"
| "is_primitive_number (Bool _) = True"
| "is_primitive_number (Num _) = True"
| "is_primitive_number _ = False"

text \<open>
  The operator \<open>+\<close>: when an operand is a string, or an object (whose primitive value is
  the string of its conversion, which can throw), the operands are concatenated as
  strings, the left one converted first; otherwise they are added as Numbers.
\<close>

definition js_add :: "world \<Rightarrow> jsval \<Rightarrow> jsval \<Rightarrow> error + jsval" where
  "js_add W a b =
     (if is_primitive_number a \<and> is_primitive_number b
      then Inr (Num (fadd (ToNumber a) (ToNumber b)))
      else (case ToString W a of
              Inl e \<Rightarrow> Inl e
            | Inr sa \<Rightarrow> (case ToString W b of Inl e \<Rightarrow> Inl e | Inr sb \<Rightarrow> Inr (Str (sa @ sb)))))"


section \<open>parseFloat\<close>

text \<open>
  \<open>parseFloat\<close> skips leading white space and converts the longest prefix that is a
  decimal literal (sign, digits, fraction, exponent, or \<open>Infinity\<close>); with no such
  prefix the result is NaN. The digits denote an exact rational, rounded to the nearest
  double.
\<close>

definition is_space :: "16 word \<Rightarrow> bool" where
  "is_space c =
     (c \<in> {0x09, 0x0A, 0x0B, 0x0C, 0x0D, 0x20, 0xA0, 0x1680, 0x2028, 0x2029, 0x202F, 0x205F,
            0x3000, 0xFEFF} \<or> (0x2000 \<le> c \<and> c \<le> 0x200A))"

definition parse_exponent :: "jsstring \<Rightarrow> int" where
  "parse_exponent r =
     (case r of
        [] \<Rightarrow> 0
      | c # r1 \<Rightarrow>
          if c = 0x65 \<or> c = 0x45 then
            (let neg = (r1 \<noteq> [] \<and> hd r1 = 0x2D);
                 r2 = (if r1 \<noteq> [] \<and> (hd r1 = 0x2B \<or> hd r1 = 0x2D) then tl r1 else r1);
                 ds = takeWhile is_digit r2
             in if ds = [] then 0 else if neg then - int (digits_val ds) else int (digits_val ds))
          else 0)"

definition parse_unsigned :: "jsstring \<Rightarrow> rat option" where
  "parse_unsigned s =
     (let ip = takeWhile is_digit s;
          r1 = dropWhile is_digit s;
          dot = (r1 \<noteq> [] \<and> hd r1 = 0x2E);
          fp = (if dot then takeWhile is_digit (tl r1) else []);
          r2 = (if dot then dropWhile is_digit (tl r1) else r1)
      in if ip = [] \<and> fp = [] then None
         else Some (of_nat (digits_val (ip @ fp)) * 10 powi (parse_exponent r2 - int (length fp))))"

definition parseFloat :: "jsstring \<Rightarrow> number" where
  "parseFloat str =
     (let t = dropWhile is_space str;
          neg = (t \<noteq> [] \<and> hd t = 0x2D);
          u = (if t \<noteq> [] \<and> (hd t = 0x2B \<or> hd t = 0x2D) then tl t else t)
      in if take 8 u = utf16 ''Infinity'' then (if neg then NegInf else PosInf)
         else (case parse_unsigned u of
                 None \<Rightarrow> NaN
               | Some q \<Rightarrow>
                   if q = 0 then (if neg then NegZero else Fin 0)
                   else round_double (if neg then - q else q)))"

text \<open>
  \<open>parseFloat(parts[i])\<close>: an index past the end reads \<open>undefined\<close>, which
  \<open>parseFloat\<close> converts to the string \<open>undefined\<close> first.
\<close>

definition parseFloat_at :: "jsstring list \<Rightarrow> nat \<Rightarrow> number" where
  "parseFloat_at parts i =
     (if i < length parts then parseFloat (parts ! i) else parseFloat (utf16 ''undefined''))"

section \<open>The adapters\<close>

record quote =
  price :: jsval
  change :: jsval

text \<open>
  Each adapter is an \<open>async\<close> function whose body is one \<open>try\<close> block: \<open>_try\<close> is the
  body, with a thrown error as \<open>Inl\<close>, and the adapter itself is the body under
  \<open>catch (error) { return null; }\<close>. The result \<open>None\<close> is \<open>null\<close>.
\<close>

definition catch_null :: "(error + quote option) \<times> trace \<Rightarrow> quote option \<times> trace" where
  "catch_null r = (case fst r of Inl e \<Rightarrow> (None, snd r) | Inr q \<Rightarrow> (q, snd r))"

definition china_request :: "jsstring \<Rightarrow> request" where
  "china_request symbol =
     \<lparr>url = utf16 ''https://hq.sinajs.cn/list='' @ symbol,
      headers = [(utf16 ''Referer'', utf16 ''http://finance.sina.com.cn'')]\<rparr>"

definition fetchChinaStock_try :: "world \<Rightarrow> jsstring \<Rightarrow> trace \<Rightarrow> (error + quote option) \<times> trace" where
  "fetchChinaStock_try W symbol tr =
     (let (response, tr1) = axios_get W (china_request symbol) tr
      in case response of
           Inl e \<Rightarrow> (Inl e, tr1)
         | Inr data \<Rightarrow>
             (case data of
                Str s \<Rightarrow>
                  if str_includes s (utf16 ''null'') \<or> length s < 32 then (Inr None, tr1)
                  else (case match_quoted s of
                          Some m \<Rightarrow>
                            (let parts = str_split comma m
                             in (Inr (Some \<lparr>price = Num (parseFloat_at parts 1),
                                            change = Num (parseFloat_at parts 2)\<rparr>),
                                 tr1 @ [RegexMatch s]))
                        | None \<Rightarrow> (Inr None, tr1 @ [RegexMatch s]))
              | Arr xs \<Rightarrow>
                  if Str (utf16 ''null'') \<in> set xs \<or> length xs < 32 then (Inr None, tr1)
                  else (Inl TypeError, tr1)
              | _ \<Rightarrow> (Inl TypeError, tr1)))"

definition fetchChinaStock :: "world \<Rightarrow> jsstring \<Rightarrow> trace \<Rightarrow> quote option \<times> trace" where
  "fetchChinaStock W symbol tr = catch_null (fetchChinaStock_try W symbol tr)"

definition idMap :: "(jsstring \<times> jsval) list" where
  "idMap =
     [(utf16 ''bitcoin'', Str (utf16 ''bitcoin'')),
      (utf16 ''ethereum'', Str (utf16 ''ethereum'')),
      (utf16 ''solana'', Str (utf16 ''solana''))]"

text \<open>
  The request of \<open>fetchCrypto\<close>: the URL holds \<open>idMap[symbol]\<close> converted to a string.
  \<open>fetchCrypto_try\<close> makes the conversion first and leaves with its error before any
  request.
\<close>

definition crypto_request :: "world \<Rightarrow> jsstring \<Rightarrow> request" where
  "crypto_request W symbol =
     \<lparr>url = utf16 ''https://api.coingecko.com/api/v3/simple/price?ids=''
            @ (case ToString W (obj_get idMap symbol) of Inr ids \<Rightarrow> ids | Inl e \<Rightarrow> [])
            @ utf16 ''&vs_currencies=cny&include_24hr_change=true'',
      headers = []\<rparr>"

definition fetchCrypto_try :: "world \<Rightarrow> jsstring \<Rightarrow> trace \<Rightarrow> (error + quote option) \<times> trace" where
  "fetchCrypto_try W symbol tr =
     (case ToString W (obj_get idMap symbol) of
        Inl e \<Rightarrow> (Inl e, tr)
      | Inr key \<Rightarrow>
          (let (response, tr1) = axios_get W (crypto_request W symbol) tr
           in case response of
                Inl e \<Rightarrow> (Inl e, tr1)
              | Inr rdata \<Rightarrow>
                  (case get_member rdata key of
                     Inl e \<Rightarrow> (Inl e, tr1)
                   | Inr data \<Rightarrow>
                       if truthy data then
                         (case get_member data (utf16 ''cny'') of
                            Inl e \<Rightarrow> (Inl e, tr1)
                          | Inr p \<Rightarrow>
                              (case get_member data (utf16 ''cny_24h_change'') of
                                 Inl e \<Rightarrow> (Inl e, tr1)
                               | Inr c \<Rightarrow> (Inr (Some \<lparr>price = p, change = c\<rparr>), tr1)))
                       else (Inr None, tr1))))"

definition fetchCrypto :: "world \<Rightarrow> jsstring \<Rightarrow> trace \<Rightarrow> quote option \<times> trace" where
  "fetchCrypto W symbol tr = catch_null (fetchCrypto_try W symbol tr)"

definition mockData :: "(jsstring \<times> jsval) list" where
  "mockData =
     [(utf16 ''XAUUSD'', Obj [(utf16 ''base'', Num (lit 2650)), (utf16 ''change'', Num (lit (1 / 2)))]),
      (utf16 ''AU9999'', Obj [(utf16 ''base'', Num (lit 620)), (utf16 ''change'', Num (lit (3 / 10)))])]"

definition fetchGold_try :: "world \<Rightarrow> jsstring \<Rightarrow> trace \<Rightarrow> (error + quote option) \<times> trace" where
  "fetchGold_try W symbol tr =
     (let data = obj_get mockData symbol
      in if truthy data then
           (let (r, tr1) = math_random W tr;
                variance = fmul (fsub r (lit (1 / 2))) (lit 2)
            in case get_member data (utf16 ''base'') of
                 Inl e \<Rightarrow> (Inl e, tr1)
               | Inr b \<Rightarrow>
                   (case get_member data (utf16 ''change'') of
                      Inl e \<Rightarrow> (Inl e, tr1)
                    | Inr c \<Rightarrow>
                        (case js_add W b (Num variance) of
                           Inl e \<Rightarrow> (Inl e, tr1)
                         | Inr p \<Rightarrow>
                             (case js_add W c (Num (fmul variance (lit (1 / 10)))) of
                                Inl e \<Rightarrow> (Inl e, tr1)
                              | Inr ch \<Rightarrow> (Inr (Some \<lparr>price = p, change = ch\<rparr>), tr1)))))
         else (Inr None, tr))"

definition fetchGold :: "world \<Rightarrow> jsstring \<Rightarrow> trace \<Rightarrow> quote option \<times> trace" where
  "fetchGold W symbol tr = catch_null (fetchGold_try W symbol tr)"

section \<open>The aggregator\<close>

definition COLORS_reset :: jsstring where
  "COLORS_reset = 0x1B # utf16 ''[0m''"

definition COLORS_green :: jsstring where
  "COLORS_green = 0x1B # utf16 ''[32m''"

definition COLORS_red :: jsstring where
  "COLORS_red = 0x1B # utf16 ''[31m''"

text \<open>
  \<open>formatPrice\<close>. When \<open>change\<close> is a Number, the comparisons with 0 cannot throw,
  and the template literal converts \<open>price\<close> to a string, which throws for an object
  that has no string conversion, before it calls \<open>change.toFixed(2)\<close>. When
  \<open>change\<close> is not a Number the function throws a \<open>TypeError\<close> wherever it gets to:
  at the latest \<open>change.toFixed(2)\<close> does (\<open>undefined\<close> and \<open>null\<close> have no
  properties, and no other value here has a callable \<open>toFixed\<close>), and every error that
  the comparison or the conversion of \<open>price\<close> can throw before is a \<open>TypeError\<close> too.
\<close>

definition formatPrice :: "world \<Rightarrow> jsval \<Rightarrow> jsval \<Rightarrow> error + jsstring" where
  "formatPrice W p c =
     (case c of
        Num n \<Rightarrow>
          (let sign = (if ge_zero n then utf16 ''+'' else []);
               color = (if ge_zero n then COLORS_green else COLORS_red)
           in case ToString W p of
                Inl e \<Rightarrow> Inl e
              | Inr ps \<Rightarrow>
                  Inr (COLORS_reset @ ps @ utf16 '' '' @ color @ sign
                       @ to_fixed W n 2 @ utf16 ''%'' @ COLORS_reset))
      | _ \<Rightarrow> Inl TypeError)"

text \<open>The cross mark shown for a symbol without a quote (U+274C).\<close>

definition CROSS :: jsstring where
  "CROSS = [0x274C]"

record entry =
  symbol :: jsstring
  name :: jsstring

record group =
  group_name :: jsstring
  symbols :: "entry list"

text \<open>
  The watchlist is an object whose keys are group keys, in the order of the
  configuration. \<open>results\<close> is a plain object with string values, the list of its own
  properties in creation order.
\<close>

type_synonym watchlist = "(jsstring \<times> group) list"

type_synonym results = "(jsstring \<times> jsstring) list"

text \<open>
  \<open>results[k] = v\<close> with a string \<open>v\<close>: an existing property keeps its place and takes
  the new value, a new one is added last. The key \<open>__proto__\<close> reaches the inherited
  setter, which ignores a value that is not an object.
\<close>

definition set_prop :: "results \<Rightarrow> jsstring \<Rightarrow> jsstring \<Rightarrow> results" where
  "set_prop res k v =
     (if k = utf16 ''__proto__'' then res
      else if k \<in> fst ` set res then map (\<lambda>(k', v'). if k' = k then (k', v) else (k', v')) res
      else res @ [(k, v)])"

text \<open>
  The order in which an object lists its own keys: array indices first, in ascending
  numeric order, then the other keys in creation order.
\<close>

definition own_keys :: "results \<Rightarrow> jsstring list" where
  "own_keys res =
     sort_key (\<lambda>k. the (array_index k)) (filter (\<lambda>k. array_index k \<noteq> None) (map fst res))
     @ filter (\<lambda>k. array_index k = None) (map fst res)"

definition run_adapter :: "adapter \<Rightarrow> world \<Rightarrow> jsstring \<Rightarrow> trace \<Rightarrow> quote option \<times> trace" where
  "run_adapter a = (case a of ChinaStock \<Rightarrow> fetchChinaStock | Gold \<Rightarrow> fetchGold | Crypto \<Rightarrow> fetchCrypto)"

text \<open>
  One \<open>for ... of\<close> loop of \<open>fetchAllPrices\<close>: for each entry in order, await the
  adapter and store the formatted quote, or the cross mark, under the entry's display
  name. An error thrown by \<open>formatPrice\<close> leaves the loop and the function.
\<close>

text \<open>\<open>data ? formatPrice(data.price, data.change) : CROSS\<close>, the value stored for an outcome.\<close>

definition cell :: "world \<Rightarrow> quote option \<Rightarrow> error + jsstring" where
  "cell W data = (case data of Some q \<Rightarrow> formatPrice W (price q) (change q) | None \<Rightarrow> Inr CROSS)"

fun fetch_loop :: "adapter \<Rightarrow> world \<Rightarrow> entry list \<Rightarrow> results \<Rightarrow> trace \<Rightarrow> (error + results) \<times> trace" where
  "fetch_loop a W [] res tr = (Inr res, tr)"
| "fetch_loop a W (e # es) res tr =
     (let (data, tr1) = run_adapter a W (symbol e) (tr @ [Dispatch a (symbol e)])
      in case cell W data of
           Inl err \<Rightarrow> (Inl err, tr1)
         | Inr v \<Rightarrow> fetch_loop a W es (set_prop res (name e) v) tr1)"

text \<open>
  \<open>watchlist.stocks.symbols\<close> and its three siblings: a missing group is \<open>undefined\<close>,
  and reading \<open>symbols\<close> from it throws.
\<close>

definition group_loop ::
  "adapter \<Rightarrow> jsstring \<Rightarrow> world \<Rightarrow> watchlist \<Rightarrow> (error + results) \<times> trace \<Rightarrow> (error + results) \<times> trace" where
  "group_loop a key W wl st =
     (case fst st of
        Inl err \<Rightarrow> st
      | Inr res \<Rightarrow>
          (case map_of wl key of
             None \<Rightarrow> (Inl TypeError, snd st)
           | Some g \<Rightarrow> fetch_loop a W (symbols g) res (snd st)))"

definition fetchAllPrices :: "world \<Rightarrow> watchlist \<Rightarrow> trace \<Rightarrow> (error + results) \<times> trace" where
  "fetchAllPrices W wl tr =
     group_loop Crypto (utf16 ''crypto'') W wl
       (group_loop Gold (utf16 ''gold'') W wl
         (group_loop ChinaStock (utf16 ''hkstocks'') W wl
           (group_loop ChinaStock (utf16 ''stocks'') W wl (Inr [], tr))))"


section \<open>Notions and sample inputs of the statements\<close>

text \<open>A world whose every request returns the data \<open>v\<close> and whose every random draw is \<open>r\<close>.\<close>

definition W_const :: "jsval \<Rightarrow> number \<Rightarrow> world" where
  "W_const v r =
     \<lparr>net = (\<lambda>i req. Inr v), rand = (\<lambda>i. r), to_str = (\<lambda>v. []), to_fixed = (\<lambda>n d. [])\<rparr>"

text \<open>A world whose every request fails.\<close>

definition W_down :: world where
  "W_down =
     \<lparr>net = (\<lambda>i req. Inl NetworkError), rand = (\<lambda>i. Fin 0), to_str = (\<lambda>v. []),
      to_fixed = (\<lambda>n d. [])\<rparr>"

text \<open>A quote feed body with a single field between the quotes: 38 code units, no comma.\<close>

definition body_one_field :: jsstring where
  "body_one_field =
     utf16 ''var hq_str_sh600519='' @ [dquote] @ utf16 ''Kweichow Moutai'' @ [dquote] @ utf16 '';''"

text \<open>The URL that \<open>fetchCrypto\<close> builds from an identifier outside \<open>idMap\<close>.\<close>

definition url_ids_undefined :: jsstring where
  "url_ids_undefined =
     utf16 ''https://api.coingecko.com/api/v3/simple/price?ids=undefined&vs_currencies=cny&include_24hr_change=true''"

text \<open>The group keys that \<open>fetchAllPrices\<close> reads, in the order it reads them.\<close>

definition bound_keys :: "jsstring list" where
  "bound_keys = [utf16 ''stocks'', utf16 ''hkstocks'', utf16 ''gold'', utf16 ''crypto'']"

text \<open>The keys of \<open>results\<close> after one more assignment, as \<open>set_prop\<close> leaves them.\<close>

definition add_key :: "jsstring list \<Rightarrow> jsstring \<Rightarrow> jsstring list" where
  "add_key ks k = (if k = utf16 ''__proto__'' \<or> k \<in> set ks then ks else ks @ [k])"

fun is_Num :: "jsval \<Rightarrow> bool" where
  "is_Num (Num _) = True"
| "is_Num _ = False"

text \<open>
  A quote that \<open>formatPrice\<close> accepts: its change is a Number and its price has a
  string conversion.
\<close>

definition formattable :: "world \<Rightarrow> quote \<Rightarrow> bool" where
  "formattable W q = (is_Num (change q) \<and> \<not> isl (ToString W (price q)))"

text \<open>Every quote that \<open>fetchCrypto\<close> returns in the world \<open>W\<close> is one that \<open>formatPrice\<close> accepts.\<close>

definition crypto_formattable :: "world \<Rightarrow> bool" where
  "crypto_formattable W = (\<forall>s tr q. fst (fetchCrypto W s tr) = Some q \<longrightarrow> formattable W q)"

text \<open>The dispatches of one loop, in order.\<close>

definition dispatches :: "adapter \<Rightarrow> entry list \<Rightarrow> event list" where
  "dispatches a es = map (\<lambda>e. Dispatch a (symbol e)) es"

text \<open>Every quote that the adapter \<open>a\<close> returns in the world \<open>W\<close> is one that \<open>formatPrice\<close> accepts.\<close>

definition formattable_adapter :: "adapter \<Rightarrow> world \<Rightarrow> bool" where
  "formattable_adapter a W = (\<forall>s tr q. fst (run_adapter a W s tr) = Some q \<longrightarrow> formattable W q)"

text \<open>The built-in watchlist of \<open>index.js\<close>; the display names are written as code units.\<close>

definition DEFAULT_WATCHLIST :: watchlist where
  "DEFAULT_WATCHLIST =
     [(utf16 ''stocks'',
       \<lparr>group_name = [0x0041, 0x80A1],
        symbols =
          [\<lparr>symbol = utf16 ''sh000001'', name = [0x4E0A, 0x8BC1, 0x6307, 0x6570]\<rparr>,
           \<lparr>symbol = utf16 ''sz399001'', name = [0x6DF1, 0x8BC1, 0x6210, 0x6307]\<rparr>,
           \<lparr>symbol = utf16 ''sz399006'', name = [0x521B, 0x4E1A, 0x677F, 0x6307]\<rparr>,
           \<lparr>symbol = utf16 ''sh600519'', name = [0x8D35, 0x5DDE, 0x8305, 0x53F0]\<rparr>,
           \<lparr>symbol = utf16 ''sz000001'', name = [0x5E73, 0x5B89, 0x94F6, 0x884C]\<rparr>]\<rparr>),
      (utf16 ''hkstocks'',
       \<lparr>group_name = [0x6E2F, 0x80A1],
        symbols =
          [\<lparr>symbol = utf16 ''hkHSI'', name = [0x6052, 0x751F, 0x6307, 0x6570]\<rparr>,
           \<lparr>symbol = utf16 ''hk00700'', name = [0x817E, 0x8BAF, 0x63A7, 0x80A1]\<rparr>]\<rparr>),
      (utf16 ''gold'',
       \<lparr>group_name = [0x9EC4, 0x91D1],
        symbols =
          [\<lparr>symbol = utf16 ''XAUUSD'', name = [0x9EC4, 0x91D1, 0x002F, 0x7F8E, 0x5143]\<rparr>,
           \<lparr>symbol = utf16 ''AU9999'', name = utf16 ''Au9999''\<rparr>]\<rparr>),
      (utf16 ''crypto'',
       \<lparr>group_name = [0x52A0, 0x5BC6, 0x8D27, 0x5E01],
        symbols =
          [\<lparr>symbol = utf16 ''bitcoin'', name = utf16 ''BTC''\<rparr>,
           \<lparr>symbol = utf16 ''ethereum'', name = utf16 ''ETH''\<rparr>,
           \<lparr>symbol = utf16 ''solana'', name = utf16 ''SOL''\<rparr>]\<rparr>)]"

text \<open>A watchlist with one group and no entries for the other keys.\<close>

definition single_group :: "jsstring \<Rightarrow> entry list \<Rightarrow> watchlist" where
  "single_group key es =
     map (\<lambda>k. (k, \<lparr>group_name = k, symbols = (if k = key then es else [])\<rparr>)) bound_keys"

text \<open>The stock \<open>sh600519\<close> entered twice under the same display name.\<close>

definition wl_twice :: watchlist where
  "wl_twice =
     single_group (utf16 ''stocks'')
       [\<lparr>symbol = utf16 ''sh600519'', name = utf16 ''Moutai''\<rparr>,
        \<lparr>symbol = utf16 ''sh600519'', name = utf16 ''Moutai''\<rparr>]"

text \<open>Two Hong Kong stocks displayed under their ticker numbers.\<close>

definition wl_tickers :: watchlist where
  "wl_tickers =
     single_group (utf16 ''hkstocks'')
       [\<lparr>symbol = utf16 ''hk00700'', name = utf16 ''700''\<rparr>,
        \<lparr>symbol = utf16 ''hk00005'', name = utf16 ''5''\<rparr>]"

text \<open>A watchlist with a group under the key \<open>forex\<close>, which no loop reads.\<close>

definition wl_forex :: watchlist where
  "wl_forex =
     single_group (utf16 ''stocks'') [\<lparr>symbol = utf16 ''sh600519'', name = utf16 ''Moutai''\<rparr>]
     @ [(utf16 ''forex'',
         \<lparr>group_name = utf16 ''forex'',
          symbols = [\<lparr>symbol = utf16 ''USDCNY'', name = utf16 ''USD/CNY''\<rparr>]\<rparr>)]"

text \<open>The number of entries of all groups of a watchlist, and their display names in order.\<close>

definition entry_count :: "watchlist \<Rightarrow> nat" where
  "entry_count wl = sum_list (map (\<lambda>kg. length (symbols (snd kg))) wl)"

definition configured_names :: "watchlist \<Rightarrow> jsstring list" where
  "configured_names wl = concat (map (\<lambda>kg. map name (symbols (snd kg))) wl)"

text \<open>
  The fetches of a list of entries, each with its adapter, run one after the other from
  the trace \<open>tr\<close>: the outcomes in order, and the final trace.
\<close>

fun run_jobs :: "world \<Rightarrow> (adapter \<times> entry) list \<Rightarrow> trace \<Rightarrow> quote option list \<times> trace" where
  "run_jobs W [] tr = ([], tr)"
| "run_jobs W (j # js) tr =
     (let (data, tr1) = run_adapter (fst j) W (symbol (snd j)) (tr @ [Dispatch (fst j) (symbol (snd j))]);
          (ds, tr2) = run_jobs W js tr1
      in (data # ds, tr2))"

text \<open>The entries of the four groups with the adapter of their loop, in the order of the loops.\<close>

definition all_jobs :: "group \<Rightarrow> group \<Rightarrow> group \<Rightarrow> group \<Rightarrow> (adapter \<times> entry) list" where
  "all_jobs gs gh gg gc =
     map (Pair ChinaStock) (symbols gs) @ map (Pair ChinaStock) (symbols gh)
     @ map (Pair Gold) (symbols gg) @ map (Pair Crypto) (symbols gc)"

text \<open>
  A response of the form \<open>symbol="Name,<price>,<change>,...more fields..."\<close>, from its
  parts: the text before the equals sign, the first three fields and the list of the
  fields after them.
\<close>

definition regional_response :: "jsstring \<Rightarrow> jsstring \<Rightarrow> jsstring \<Rightarrow> jsstring \<Rightarrow> jsstring list \<Rightarrow> jsstring" where
  "regional_response pre nm p c extra =
     pre @ utf16 ''='' @ [dquote] @ nm @ [comma] @ p @ [comma] @ c
     @ concat (map (\<lambda>f. comma # f) extra) @ [dquote]"

text \<open>The response of the specification's example, and a shorter one of the same form.\<close>

definition body_moutai :: jsstring where
  "body_moutai =
     regional_response (utf16 ''sh600519'') [0x8D35, 0x5DDE, 0x8305, 0x53F0]
       (utf16 ''1830.00'') (utf16 ''1835.00'') [utf16 ''1820.00'']"

definition body_short :: jsstring where
  "body_short =
     regional_response (utf16 ''sh600519'') (utf16 ''X'') (utf16 ''1830.00'') (utf16 ''1835.00'') []"

text \<open>The rational value of a finite Number (both zeros have the value 0).\<close>

fun finite_value :: "number \<Rightarrow> rat option" where
  "finite_value (Fin q) = Some q"
| "finite_value NegZero = Some 0"
| "finite_value _ = None"

text \<open>A rational is a double when rounding leaves it as it is.\<close>

definition is_double :: "rat \<Rightarrow> bool" where
  "is_double q = (round_double q = Fin q)"

text \<open>The doubles that the literals \<open>0.1\<close> and \<open>0.3\<close> denote.\<close>

definition dbl_tenth :: rat where
  "dbl_tenth = 3602879701896397 / 36028797018963968"

definition dbl_three_tenths :: rat where
  "dbl_three_tenths = 5404319552844595 / 18014398509481984"

text \<open>The known instruments of \<open>mockData\<close> with the values of their base price and change.\<close>

definition known_metals :: "(jsstring \<times> rat \<times> rat) list" where
  "known_metals = [(utf16 ''XAUUSD'', 2650, 1 / 2), (utf16 ''AU9999'', 620, dbl_three_tenths)]"

text \<open>The largest double below 1, a possible result of \<open>Math.random\<close>.\<close>

definition draw_max :: rat where
  "draw_max = 1 - 1 / 2 ^ 53"

text \<open>\<open>(Math.random() - 0.5) * 2\<close> for the draw \<open>q\<close>.\<close>

definition variance_of :: "rat \<Rightarrow> number" where
  "variance_of q = fmul (fsub (Fin q) (lit (1 / 2))) (lit 2)"

section \<open>Strings: the pattern match and the split\<close>

lemma takeWhile_until: "q \<notin> set m \<Longrightarrow> takeWhile (\<lambda>x. x \<noteq> q) (m @ q # post) = m"
  by (induction m) auto

lemma dropWhile_until: "q \<notin> set m \<Longrightarrow> dropWhile (\<lambda>x. x \<noteq> q) (m @ q # post) = q # post"
  by (induction m) auto

lemma match_quoted_first:
  "dquote \<notin> set pre \<Longrightarrow> dquote \<notin> set m \<Longrightarrow> m \<noteq> [] \<Longrightarrow>
   match_quoted (pre @ dquote # m @ dquote # post) = Some m"
proof (induction pre)
  case Nil
  have "takeWhile (\<lambda>x. x \<noteq> dquote) (m @ dquote # post) = m"
    using Nil by (simp add: takeWhile_until)
  moreover have "dropWhile (\<lambda>x. x \<noteq> dquote) (m @ dquote # post) = dquote # post"
    using Nil by (simp add: dropWhile_until)
  ultimately show ?case using Nil by simp
next
  case (Cons c pre)
  then show ?case by auto
qed

lemma str_split_no_sep: "sep \<notin> set a \<Longrightarrow> str_split sep a = [a]"
  by (induction a) auto

lemma str_split_field: "sep \<notin> set a \<Longrightarrow> str_split sep (a @ sep # rest) = a # str_split sep rest"
  by (induction a) auto

lemma parseFloat_undefined: "parseFloat (utf16 ''undefined'') = NaN"
  by (simp add: parseFloat_def parse_unsigned_def utf16_def is_space_def is_digit_def)

section \<open>The regional-exchange adapter\<close>

text \<open>
  C5. When the body of the response contains \<open>null\<close> anywhere, or is shorter than 32
  code units, \<open>fetchChinaStock\<close> returns \<open>null\<close> (Unavailable), and the pattern match
  with its comma split is not executed: the run adds no match to the trace.
\<close>

theorem fetchChinaStock_gate:
  assumes "fst (axios_get W (china_request s) tr) = Inr (Str body)"
    and "str_includes body (utf16 ''null'') \<or> length body < 32"
  shows "fst (fetchChinaStock W s tr) = None
       \<and> filter is_RegexMatch (snd (fetchChinaStock W s tr)) = filter is_RegexMatch tr"
  using assms
  by (auto simp: fetchChinaStock_def fetchChinaStock_try_def catch_null_def axios_get_def)

theorem fetchChinaStock_gate_witness:
  "fst (axios_get (W_const (Str (utf16 ''null'')) (Fin 0)) (china_request (utf16 ''sh600519'')) [])
     = Inr (Str (utf16 ''null''))
   \<and> str_includes (utf16 ''null'') (utf16 ''null'')
   \<and> fst (fetchChinaStock (W_const (Str (utf16 ''null'')) (Fin 0)) (utf16 ''sh600519'') []) = None
   \<and> filter is_RegexMatch
        (snd (fetchChinaStock (W_const (Str (utf16 ''null'')) (Fin 0)) (utf16 ''sh600519'') [])) = []"
proof -
  have h1: "fst (axios_get (W_const (Str (utf16 ''null'')) (Fin 0)) (china_request (utf16 ''sh600519'')) [])
            = Inr (Str (utf16 ''null''))"
    by (simp add: axios_get_def W_const_def)
  have h2: "str_includes (utf16 ''null'') (utf16 ''null'') \<or> length (utf16 ''null'') < 32"
    by (simp add: utf16_def)
  from fetchChinaStock_gate [OF h1 h2] h1 show ?thesis
    by (simp add: utf16_def)
qed

text \<open>
  C4. A body that passes the two checks and whose first quoted string has no comma is
  split into a single field; \<open>parts[1]\<close> and \<open>parts[2]\<close> are \<open>undefined\<close>,
  \<open>parseFloat\<close> makes NaN of both, and \<open>fetchChinaStock\<close> returns the quote
  \<open>{price: NaN, change: NaN}\<close> instead of \<open>null\<close>: too few fields are not turned into
  Unavailable.
\<close>

theorem fetchChinaStock_one_field:
  assumes "fst (axios_get W (china_request s) tr) = Inr (Str body)"
    and "\<not> str_includes body (utf16 ''null'')" and "32 \<le> length body"
    and "match_quoted body = Some m" and "comma \<notin> set m"
  shows "fst (fetchChinaStock W s tr) = Some \<lparr>price = Num NaN, change = Num NaN\<rparr>"
  using assms
  by (auto simp: fetchChinaStock_def fetchChinaStock_try_def catch_null_def axios_get_def
      str_split_no_sep parseFloat_at_def parseFloat_undefined)

lemma body_one_field_match: "match_quoted body_one_field = Some (utf16 ''Kweichow Moutai'')"
  by (simp add: body_one_field_def utf16_def dquote_def)

theorem fetchChinaStock_one_field_witness:
  "32 \<le> length body_one_field \<and> match_quoted body_one_field = Some (utf16 ''Kweichow Moutai'')
   \<and> fst (fetchChinaStock (W_const (Str body_one_field) (Fin 0)) (utf16 ''sh600519'') [])
       = Some \<lparr>price = Num NaN, change = Num NaN\<rparr>"
proof -
  have h1: "fst (axios_get (W_const (Str body_one_field) (Fin 0)) (china_request (utf16 ''sh600519'')) [])
            = Inr (Str body_one_field)"
    by (simp add: axios_get_def W_const_def)
  have h2: "\<not> str_includes body_one_field (utf16 ''null'')"
    by (simp add: body_one_field_def utf16_def dquote_def)
  have h3: "32 \<le> length body_one_field"
    by (simp add: body_one_field_def utf16_def)
  have h5: "comma \<notin> set (utf16 ''Kweichow Moutai'')"
    by (simp add: utf16_def comma_def)
  from fetchChinaStock_one_field [OF h1 h2 h3 body_one_field_match h5] h3 body_one_field_match
  show ?thesis by simp
qed

section \<open>The cryptocurrency adapter\<close>

text \<open>
  C2. For an identifier that is not a key of \<open>idMap\<close> (and not a name inherited from
  \<open>Object.prototype\<close>), \<open>idMap[symbol]\<close> is \<open>undefined\<close> and \<open>fetchCrypto\<close> still issues
  its request, with \<open>ids=undefined\<close> in the URL: the run adds exactly that request to the
  trace.
\<close>

theorem fetchCrypto_unknown_calls:
  assumes "map_of idMap s = None" and "s \<notin> set object_prototype_keys"
  shows "snd (fetchCrypto W s tr) = tr @ [HttpGet \<lparr>url = url_ids_undefined, headers = []\<rparr>]"
  using assms
  by (simp add: fetchCrypto_def fetchCrypto_try_def catch_null_def axios_get_def crypto_request_def
      obj_get_def object_prototype_def url_ids_undefined_def utf16_def
      split: sum.splits prod.splits)

theorem fetchCrypto_unknown_calls_witness:
  "map_of idMap (utf16 ''dogecoin'') = None
   \<and> snd (fetchCrypto W_down (utf16 ''dogecoin'') [])
       = [HttpGet \<lparr>url = url_ids_undefined, headers = []\<rparr>]"
proof -
  have h1: "map_of idMap (utf16 ''dogecoin'') = None"
    by (simp add: idMap_def utf16_def)
  have h2: "utf16 ''dogecoin'' \<notin> set object_prototype_keys"
    by (simp add: object_prototype_keys_def utf16_def)
  from fetchCrypto_unknown_calls [OF h1 h2, of W_down "[]"] h1 show ?thesis
    by simp
qed

text \<open>
  C6. When the response holds the requested id with a price and no 24-hour change,
  \<open>fetchCrypto\<close> returns a quote whose \<open>change\<close> is \<open>undefined\<close>: a partial quote, not
  \<open>null\<close>.
\<close>

theorem fetchCrypto_partial:
  assumes "fst (axios_get W (crypto_request W (utf16 ''bitcoin'')) tr)
           = Inr (Obj [(utf16 ''bitcoin'', Obj [(utf16 ''cny'', Num p)])])"
  shows "fst (fetchCrypto W (utf16 ''bitcoin'') tr) = Some \<lparr>price = Num p, change = Undefined\<rparr>"
  using assms
  by (simp add: fetchCrypto_def fetchCrypto_try_def catch_null_def axios_get_def
      obj_get_def idMap_def get_member_def utf16_def object_prototype_def
      object_prototype_keys_def split: prod.splits)

theorem fetchCrypto_partial_witness:
  "fst (fetchCrypto
         (W_const (Obj [(utf16 ''bitcoin'', Obj [(utf16 ''cny'', Num (lit (43500012 / 100)))])]) (Fin 0))
         (utf16 ''bitcoin'') [])
   = Some \<lparr>price = Num (lit (43500012 / 100)), change = Undefined\<rparr>"
  using fetchCrypto_partial
    [of "W_const (Obj [(utf16 ''bitcoin'', Obj [(utf16 ''cny'', Num (lit (43500012 / 100)))])]) (Fin 0)"
        "[]" "lit (43500012 / 100)"]
  by (simp add: axios_get_def W_const_def)

section \<open>The precious-metals adapter\<close>

text \<open>
  C9. \<open>mockData[symbol]\<close> also finds the names every object inherits. For the
  instrument \<open>constructor\<close>, which is not in the known set, the lookup gives a built-in
  function, which is truthy and has neither \<open>base\<close> nor \<open>change\<close>: \<open>fetchGold\<close> returns
  the quote \<open>{price: NaN, change: NaN}\<close> instead of \<open>null\<close>, in every world.
\<close>

theorem fetchGold_constructor:
  "fst (fetchGold W (utf16 ''constructor'') tr) = Some \<lparr>price = Num NaN, change = Num NaN\<rparr>"
  by (simp add: fetchGold_def fetchGold_try_def catch_null_def math_random_def
      obj_get_def mockData_def object_prototype_def object_prototype_keys_def utf16_def
      get_member_def js_add_def split: sum.splits prod.splits)

theorem fetchGold_constructor_witness:
  "map_of mockData (utf16 ''constructor'') = None
   \<and> fst (fetchGold W_down (utf16 ''constructor'') []) = Some \<lparr>price = Num NaN, change = Num NaN\<rparr>"
  using fetchGold_constructor [of W_down "[]"]
  by (simp add: mockData_def utf16_def)

section \<open>The aggregator: keys, traces and outcomes\<close>

lemma map_fst_set_prop: "map fst (set_prop res k v) = add_key (map fst res) k"
  by (auto simp: set_prop_def add_key_def intro!: map_idI split: prod.splits)

lemma set_add_keys: "set (foldl add_key ks ns) = set ks \<union> (set ns - {utf16 ''__proto__''})"
  by (induction ns arbitrary: ks) (auto simp: add_key_def)

lemma distinct_add_keys: "distinct ks \<Longrightarrow> distinct (foldl add_key ks ns)"
  by (induction ns arbitrary: ks) (auto simp: add_key_def)

lemma add_keys_append:
  "distinct (ks @ ns) \<Longrightarrow> utf16 ''__proto__'' \<notin> set ns \<Longrightarrow> foldl add_key ks ns = ks @ ns"
  by (induction ns arbitrary: ks) (auto simp: add_key_def)

lemma fetchChinaStock_dispatch:
  "filter is_Dispatch (snd (fetchChinaStock W s tr)) = filter is_Dispatch tr"
  by (auto simp: fetchChinaStock_def fetchChinaStock_try_def catch_null_def axios_get_def Let_def
      split: sum.splits jsval.splits option.splits prod.splits)

lemma fetchCrypto_dispatch:
  "filter is_Dispatch (snd (fetchCrypto W s tr)) = filter is_Dispatch tr"
  by (auto simp: fetchCrypto_def fetchCrypto_try_def catch_null_def axios_get_def
      split: sum.splits prod.splits)

lemma fetchGold_dispatch:
  "filter is_Dispatch (snd (fetchGold W s tr)) = filter is_Dispatch tr"
  by (auto simp: fetchGold_def fetchGold_try_def catch_null_def math_random_def Let_def
      split: sum.splits prod.splits)

lemma run_adapter_dispatch:
  "filter is_Dispatch (snd (run_adapter a W s tr)) = filter is_Dispatch tr"
  by (cases a) (simp_all add: run_adapter_def fetchChinaStock_dispatch fetchCrypto_dispatch fetchGold_dispatch)

lemma fetchChinaStock_numeric:
  "fst (fetchChinaStock W s tr) = Some q \<Longrightarrow> is_Num (price q) \<and> is_Num (change q)"
  by (auto simp: fetchChinaStock_def fetchChinaStock_try_def catch_null_def axios_get_def Let_def
      split: sum.splits jsval.splits option.splits prod.splits if_splits)

lemma object_prototype_change: "object_prototype (utf16 ''change'') = Undefined"
  by (simp add: object_prototype_def object_prototype_keys_def utf16_def)

lemma object_prototype_base: "object_prototype (utf16 ''base'') = Undefined"
  by (simp add: object_prototype_def object_prototype_keys_def utf16_def)

lemma mockData_cases:
  "obj_get mockData s = Undefined \<or> (\<exists>k. obj_get mockData s = ProtoMember k)
   \<or> (\<exists>b c. obj_get mockData s = Obj [(utf16 ''base'', Num b), (utf16 ''change'', Num c)])"
  by (auto simp: obj_get_def mockData_def object_prototype_def)

lemma fetchGold_numeric:
  assumes "fst (fetchGold W s tr) = Some q"
  shows "is_Num (price q) \<and> is_Num (change q)"
proof -
  consider "obj_get mockData s = Undefined" | k where "obj_get mockData s = ProtoMember k"
    | b c where "obj_get mockData s = Obj [(utf16 ''base'', Num b), (utf16 ''change'', Num c)]"
    using mockData_cases by blast
  then show ?thesis
  proof cases
    case 1
    with assms show ?thesis
      by (simp add: fetchGold_def fetchGold_try_def catch_null_def)
  next
    case 2
    with assms show ?thesis
      by (auto simp: fetchGold_def fetchGold_try_def catch_null_def math_random_def get_member_def
          object_prototype_change object_prototype_base js_add_def Let_def split: if_splits)
  next
    case 3
    with assms show ?thesis
      by (auto simp: fetchGold_def fetchGold_try_def catch_null_def math_random_def get_member_def
          obj_get_def js_add_def utf16_def Let_def split: if_splits)
  qed
qed

lemma formattable_Num: "is_Num (price q) \<Longrightarrow> is_Num (change q) \<Longrightarrow> formattable W q"
  by (cases "price q") (simp_all add: formattable_def)

lemma formattable_ChinaStock: "formattable_adapter ChinaStock W"
  using fetchChinaStock_numeric
  by (simp add: formattable_adapter_def run_adapter_def formattable_Num)

lemma formattable_Gold: "formattable_adapter Gold W"
  using fetchGold_numeric
  by (simp add: formattable_adapter_def run_adapter_def formattable_Num)

lemma formattable_Crypto: "crypto_formattable W \<Longrightarrow> formattable_adapter Crypto W"
  by (simp add: formattable_adapter_def run_adapter_def crypto_formattable_def)

lemma formatPrice_formattable:
  "formattable W q \<Longrightarrow> \<exists>v. formatPrice W (price q) (change q) = Inr v"
  by (cases "change q"; cases "ToString W (price q)")
     (simp_all add: formatPrice_def formattable_def Let_def)

lemma fetch_loop_run:
  assumes "formattable_adapter a W"
  shows "\<exists>res' tr'. fetch_loop a W es res tr = (Inr res', tr')
           \<and> map fst res' = foldl add_key (map fst res) (map name es)
           \<and> filter is_Dispatch tr' = filter is_Dispatch tr @ dispatches a es"
proof (induction es arbitrary: res tr)
  case Nil
  show ?case by (simp add: dispatches_def)
next
  case (Cons e es)
  obtain data tr1 where r: "run_adapter a W (symbol e) (tr @ [Dispatch a (symbol e)]) = (data, tr1)"
    by (cases "run_adapter a W (symbol e) (tr @ [Dispatch a (symbol e)])")
  have d1: "filter is_Dispatch tr1 = filter is_Dispatch tr @ [Dispatch a (symbol e)]"
    using run_adapter_dispatch [of a W "symbol e" "tr @ [Dispatch a (symbol e)]"] r by simp
  have "\<exists>v. cell W data = Inr v"
  proof (cases data)
    case None
    then show ?thesis by (simp add: cell_def)
  next
    case (Some q)
    with r have "fst (run_adapter a W (symbol e) (tr @ [Dispatch a (symbol e)])) = Some q"
      by simp
    with assms have "formattable W q"
      unfolding formattable_adapter_def by blast
    with Some show ?thesis by (simp add: cell_def formatPrice_formattable)
  qed
  then obtain v where v: "cell W data = Inr v"
    by blast
  from Cons.IH [of "set_prop res (name e) v" tr1]
  obtain res' tr' where
    "fetch_loop a W es (set_prop res (name e) v) tr1 = (Inr res', tr')"
    "map fst res' = foldl add_key (map fst (set_prop res (name e) v)) (map name es)"
    "filter is_Dispatch tr' = filter is_Dispatch tr1 @ dispatches a es"
    by blast
  with r v d1 show ?case
    by (simp add: map_fst_set_prop dispatches_def)
qed

lemma fetchAllPrices_run:
  assumes "map_of wl (utf16 ''stocks'') = Some gs" and "map_of wl (utf16 ''hkstocks'') = Some gh"
    and "map_of wl (utf16 ''gold'') = Some gg" and "map_of wl (utf16 ''crypto'') = Some gc"
    and "crypto_formattable W"
  shows "\<exists>res tr'. fetchAllPrices W wl tr = (Inr res, tr')
           \<and> map fst res
               = foldl add_key [] (map name (symbols gs @ symbols gh @ symbols gg @ symbols gc))
           \<and> filter is_Dispatch tr'
               = filter is_Dispatch tr @ dispatches ChinaStock (symbols gs)
                 @ dispatches ChinaStock (symbols gh) @ dispatches Gold (symbols gg)
                 @ dispatches Crypto (symbols gc)"
proof -
  obtain r1 t1 where 1: "fetch_loop ChinaStock W (symbols gs) [] tr = (Inr r1, t1)"
    "map fst r1 = foldl add_key [] (map name (symbols gs))"
    "filter is_Dispatch t1 = filter is_Dispatch tr @ dispatches ChinaStock (symbols gs)"
    using fetch_loop_run [OF formattable_ChinaStock, of W "symbols gs" "[]" tr] by auto
  obtain r2 t2 where 2: "fetch_loop ChinaStock W (symbols gh) r1 t1 = (Inr r2, t2)"
    "map fst r2 = foldl add_key (map fst r1) (map name (symbols gh))"
    "filter is_Dispatch t2 = filter is_Dispatch t1 @ dispatches ChinaStock (symbols gh)"
    using fetch_loop_run [OF formattable_ChinaStock, of W "symbols gh" r1 t1] by auto
  obtain r3 t3 where 3: "fetch_loop Gold W (symbols gg) r2 t2 = (Inr r3, t3)"
    "map fst r3 = foldl add_key (map fst r2) (map name (symbols gg))"
    "filter is_Dispatch t3 = filter is_Dispatch t2 @ dispatches Gold (symbols gg)"
    using fetch_loop_run [OF formattable_Gold, of W "symbols gg" r2 t2] by auto
  obtain r4 t4 where 4: "fetch_loop Crypto W (symbols gc) r3 t3 = (Inr r4, t4)"
    "map fst r4 = foldl add_key (map fst r3) (map name (symbols gc))"
    "filter is_Dispatch t4 = filter is_Dispatch t3 @ dispatches Crypto (symbols gc)"
    using fetch_loop_run [OF formattable_Crypto [OF assms(5)], of "symbols gc" r3 t3] by auto
  have "fetchAllPrices W wl tr = (Inr r4, t4)"
    using assms(1-4) 1(1) 2(1) 3(1) 4(1) by (simp add: fetchAllPrices_def group_loop_def)
  moreover have "map fst r4
      = foldl add_key [] (map name (symbols gs @ symbols gh @ symbols gg @ symbols gc))"
    using 1(2) 2(2) 3(2) 4(2) by simp
  moreover have "filter is_Dispatch t4
      = filter is_Dispatch tr @ dispatches ChinaStock (symbols gs)
        @ dispatches ChinaStock (symbols gh) @ dispatches Gold (symbols gg)
        @ dispatches Crypto (symbols gc)"
    using 1(3) 2(3) 3(3) 4(3) by simp
  ultimately show ?thesis by blast
qed

lemma fetchChinaStock_down: "fetchChinaStock W_down s tr = (None, tr @ [HttpGet (china_request s)])"
  by (simp add: fetchChinaStock_def fetchChinaStock_try_def catch_null_def axios_get_def W_down_def)

lemma fetchCrypto_down: "fst (fetchCrypto W_down s tr) = None"
  by (simp add: fetchCrypto_def fetchCrypto_try_def catch_null_def axios_get_def W_down_def
      split: sum.splits)

lemma crypto_formattable_down: "crypto_formattable W_down"
  by (simp add: crypto_formattable_def fetchCrypto_down)

lemma map_of_filter_bound:
  "k \<in> set bound_keys \<Longrightarrow> map_of (filter (\<lambda>kg. fst kg \<in> set bound_keys) wl) k = map_of wl k"
  by (induction wl) auto

lemma group_loop_bound:
  "k \<in> set bound_keys \<Longrightarrow>
   group_loop a k W (filter (\<lambda>kg. fst kg \<in> set bound_keys) wl) st = group_loop a k W wl st"
  by (simp add: group_loop_def map_of_filter_bound split: sum.splits)

text \<open>
  C8. \<open>fetchAllPrices\<close> reads the four keys \<open>stocks\<close>, \<open>hkstocks\<close>, \<open>gold\<close> and
  \<open>crypto\<close> and nothing else of the watchlist: a group under any other key changes
  neither the result nor the trace. The run is the run of the watchlist without its
  unbound groups; no error is raised for them and none of their entries is fetched or
  reported.
\<close>

theorem unbound_groups_ignored:
  "fetchAllPrices W wl tr = fetchAllPrices W (filter (\<lambda>kg. fst kg \<in> set bound_keys) wl) tr"
proof -
  have "utf16 ''stocks'' \<in> set bound_keys" "utf16 ''hkstocks'' \<in> set bound_keys"
    "utf16 ''gold'' \<in> set bound_keys" "utf16 ''crypto'' \<in> set bound_keys"
    by (simp_all add: bound_keys_def)
  then show ?thesis
    by (simp add: fetchAllPrices_def group_loop_bound)
qed

theorem unbound_group_counterexample:
  "utf16 ''forex'' \<in> set (map fst wl_forex) \<and> utf16 ''forex'' \<notin> set bound_keys
   \<and> fetchAllPrices W_down wl_forex []
       = (Inr [(utf16 ''Moutai'', CROSS)],
          [Dispatch ChinaStock (utf16 ''sh600519''), HttpGet (china_request (utf16 ''sh600519''))])"
  by (simp add: wl_forex_def single_group_def bound_keys_def fetchAllPrices_def group_loop_def
      run_adapter_def fetchChinaStock_down set_prop_def cell_def utf16_def)

theorem unbound_groups_ignored_witness:
  "fetchAllPrices W_down wl_forex []
     = fetchAllPrices W_down (single_group (utf16 ''stocks'') [\<lparr>symbol = utf16 ''sh600519'', name = utf16 ''Moutai''\<rparr>]) []"
  using unbound_groups_ignored [of W_down wl_forex "[]"]
  by (simp add: wl_forex_def single_group_def bound_keys_def utf16_def)

lemma run_jobs_append:
  "run_jobs W (js1 @ js2) tr =
     (fst (run_jobs W js1 tr) @ fst (run_jobs W js2 (snd (run_jobs W js1 tr))),
      snd (run_jobs W js2 (snd (run_jobs W js1 tr))))"
  by (induction js1 arbitrary: tr) (auto simp: Let_def split: prod.splits)

lemma length_run_jobs [simp]: "length (fst (run_jobs W js tr)) = length js"
  by (induction js arbitrary: tr) (simp_all add: Let_def case_prod_beta)

lemma set_prop_fresh:
  "k \<noteq> utf16 ''__proto__'' \<Longrightarrow> k \<notin> fst ` set res \<Longrightarrow> set_prop res k v = res @ [(k, v)]"
  by (simp add: set_prop_def)

lemma fetch_loop_values:
  assumes "formattable_adapter a W"
  shows "distinct (map fst res @ map name es) \<Longrightarrow> utf16 ''__proto__'' \<notin> set (map name es) \<Longrightarrow>
         \<exists>vs. fetch_loop a W es res tr
                = (Inr (res @ zip (map name es) vs), snd (run_jobs W (map (Pair a) es) tr))
            \<and> map Inr vs = map (cell W) (fst (run_jobs W (map (Pair a) es) tr))"
proof (induction es arbitrary: res tr)
  case Nil
  show ?case by simp
next
  case (Cons e es)
  obtain data tr1 where r: "run_adapter a W (symbol e) (tr @ [Dispatch a (symbol e)]) = (data, tr1)"
    by (cases "run_adapter a W (symbol e) (tr @ [Dispatch a (symbol e)])")
  have "\<exists>v. cell W data = Inr v"
  proof (cases data)
    case None
    then show ?thesis by (simp add: cell_def)
  next
    case (Some q)
    with r have "fst (run_adapter a W (symbol e) (tr @ [Dispatch a (symbol e)])) = Some q"
      by simp
    with assms have "formattable W q"
      unfolding formattable_adapter_def by blast
    with Some show ?thesis by (simp add: cell_def formatPrice_formattable)
  qed
  then obtain v where v: "cell W data = Inr v"
    by blast
  have s: "set_prop res (name e) v = res @ [(name e, v)]"
    using Cons.prems by (intro set_prop_fresh) auto
  have "distinct (map fst (res @ [(name e, v)]) @ map name es)"
    using Cons.prems by auto
  moreover have "utf16 ''__proto__'' \<notin> set (map name es)"
    using Cons.prems by auto
  ultimately obtain vs where vs:
    "fetch_loop a W es (res @ [(name e, v)]) tr1
       = (Inr ((res @ [(name e, v)]) @ zip (map name es) vs), snd (run_jobs W (map (Pair a) es) tr1))"
    "map Inr vs = map (cell W) (fst (run_jobs W (map (Pair a) es) tr1))"
    using Cons.IH [of "res @ [(name e, v)]" tr1] by blast
  have "fetch_loop a W (e # es) res tr
          = (Inr (res @ zip (map name (e # es)) (v # vs)), snd (run_jobs W (map (Pair a) (e # es)) tr))"
    using r v s vs(1) by (simp split: prod.splits)
  moreover have "map Inr (v # vs) = map (cell W) (fst (run_jobs W (map (Pair a) (e # es)) tr))"
    using r v vs(2) by (simp split: prod.splits)
  ultimately show ?case by blast
qed

lemma fetchAllPrices_values:
  assumes "map_of wl (utf16 ''stocks'') = Some gs" and "map_of wl (utf16 ''hkstocks'') = Some gh"
    and "map_of wl (utf16 ''gold'') = Some gg" and "map_of wl (utf16 ''crypto'') = Some gc"
    and "crypto_formattable W"
    and "names = map name (symbols gs @ symbols gh @ symbols gg @ symbols gc)"
    and "distinct names" and "utf16 ''__proto__'' \<notin> set names"
  shows "\<exists>vs. fetchAllPrices W wl tr
                = (Inr (zip names vs), snd (run_jobs W (all_jobs gs gh gg gc) tr))
            \<and> map Inr vs = map (cell W) (fst (run_jobs W (all_jobs gs gh gg gc) tr))"
proof -
  let ?n1 = "map name (symbols gs)" and ?n2 = "map name (symbols gh)"
  let ?n3 = "map name (symbols gg)" and ?n4 = "map name (symbols gc)"
  let ?j1 = "map (Pair ChinaStock) (symbols gs)" and ?j2 = "map (Pair ChinaStock) (symbols gh)"
  let ?j3 = "map (Pair Gold) (symbols gg)" and ?j4 = "map (Pair Crypto) (symbols gc)"
  have d: "distinct (?n1 @ ?n2 @ ?n3 @ ?n4)" and p: "utf16 ''__proto__'' \<notin> set (?n1 @ ?n2 @ ?n3 @ ?n4)"
    using assms(6-8) by simp_all
  let ?t1 = "snd (run_jobs W ?j1 tr)"
  have a1: "distinct (map fst ([] :: results) @ ?n1)" and b1: "utf16 ''__proto__'' \<notin> set ?n1"
    using d p by simp_all
  obtain v1 where 1: "fetch_loop ChinaStock W (symbols gs) [] tr = (Inr (zip ?n1 v1), ?t1)"
    "map Inr v1 = map (cell W) (fst (run_jobs W ?j1 tr))"
    using fetch_loop_values [OF formattable_ChinaStock a1 b1, of W tr] by auto
  have l1: "length v1 = length ?n1"
    using arg_cong [OF 1(2), of length] by simp
  let ?r1 = "zip ?n1 v1"
  let ?t2 = "snd (run_jobs W ?j2 ?t1)"
  have a2: "distinct (map fst ?r1 @ ?n2)" and b2: "utf16 ''__proto__'' \<notin> set ?n2"
    using d p l1 by auto
  obtain v2 where 2: "fetch_loop ChinaStock W (symbols gh) ?r1 ?t1 = (Inr (?r1 @ zip ?n2 v2), ?t2)"
    "map Inr v2 = map (cell W) (fst (run_jobs W ?j2 ?t1))"
    using fetch_loop_values [OF formattable_ChinaStock a2 b2, of W ?t1] by auto
  have l2: "length v2 = length ?n2"
    using arg_cong [OF 2(2), of length] by simp
  let ?r2 = "?r1 @ zip ?n2 v2"
  let ?t3 = "snd (run_jobs W ?j3 ?t2)"
  have a3: "distinct (map fst ?r2 @ ?n3)" and b3: "utf16 ''__proto__'' \<notin> set ?n3"
    using d p l1 l2 by auto
  obtain v3 where 3: "fetch_loop Gold W (symbols gg) ?r2 ?t2 = (Inr (?r2 @ zip ?n3 v3), ?t3)"
    "map Inr v3 = map (cell W) (fst (run_jobs W ?j3 ?t2))"
    using fetch_loop_values [OF formattable_Gold a3 b3, of W ?t2] by auto
  have l3: "length v3 = length ?n3"
    using arg_cong [OF 3(2), of length] by simp
  let ?r3 = "?r2 @ zip ?n3 v3"
  let ?t4 = "snd (run_jobs W ?j4 ?t3)"
  have a4: "distinct (map fst ?r3 @ ?n4)" and b4: "utf16 ''__proto__'' \<notin> set ?n4"
    using d p l1 l2 l3 by auto
  obtain v4 where 4: "fetch_loop Crypto W (symbols gc) ?r3 ?t3 = (Inr (?r3 @ zip ?n4 v4), ?t4)"
    "map Inr v4 = map (cell W) (fst (run_jobs W ?j4 ?t3))"
    using fetch_loop_values [OF formattable_Crypto [OF assms(5)] a4 b4, of ?t3] by auto
  have z: "zip names (v1 @ v2 @ v3 @ v4) = ((zip ?n1 v1 @ zip ?n2 v2) @ zip ?n3 v3) @ zip ?n4 v4"
    using l1 l2 l3 assms(6) by simp
  have j: "run_jobs W (all_jobs gs gh gg gc) tr
             = (fst (run_jobs W ?j1 tr) @ fst (run_jobs W ?j2 ?t1) @ fst (run_jobs W ?j3 ?t2)
                @ fst (run_jobs W ?j4 ?t3), ?t4)"
    by (simp add: all_jobs_def run_jobs_append)
  have "fetchAllPrices W wl tr = (Inr (zip names (v1 @ v2 @ v3 @ v4)), snd (run_jobs W (all_jobs gs gh gg gc) tr))"
    using assms(1-4) 1(1) 2(1) 3(1) 4(1) z j by (simp add: fetchAllPrices_def group_loop_def)
  moreover have "map Inr (v1 @ v2 @ v3 @ v4) = map (cell W) (fst (run_jobs W (all_jobs gs gh gg gc) tr))"
    using 1(2) 2(2) 3(2) 4(2) j by simp
  ultimately show ?thesis by blast
qed

lemma cell_formattable:
  assumes "formattable_adapter a W" and "run_adapter a W s tr = (data, tr1)"
  shows "\<exists>v. cell W data = Inr v"
proof (cases data)
  case None
  then show ?thesis by (simp add: cell_def)
next
  case (Some q)
  with assms(2) have "fst (run_adapter a W s tr) = Some q"
    by simp
  with assms(1) have "formattable W q"
    unfolding formattable_adapter_def by blast
  with Some show ?thesis by (simp add: cell_def formatPrice_formattable)
qed

lemma fetch_loop_trace:
  assumes "formattable_adapter a W"
  shows "snd (fetch_loop a W es res tr) = snd (run_jobs W (map (Pair a) es) tr)"
proof (induction es arbitrary: res tr)
  case Nil
  show ?case by simp
next
  case (Cons e es)
  obtain data tr1 where r: "run_adapter a W (symbol e) (tr @ [Dispatch a (symbol e)]) = (data, tr1)"
    by (cases "run_adapter a W (symbol e) (tr @ [Dispatch a (symbol e)])")
  obtain v where v: "cell W data = Inr v"
    using cell_formattable [OF assms r] by blast
  show ?case
    using r v Cons.IH [of "set_prop res (name e) v" tr1] by (simp split: prod.splits)
qed

lemma fetchAllPrices_trace:
  assumes "map_of wl (utf16 ''stocks'') = Some gs" and "map_of wl (utf16 ''hkstocks'') = Some gh"
    and "map_of wl (utf16 ''gold'') = Some gg" and "map_of wl (utf16 ''crypto'') = Some gc"
    and "crypto_formattable W"
  shows "snd (fetchAllPrices W wl tr) = snd (run_jobs W (all_jobs gs gh gg gc) tr)"
proof -
  let ?j1 = "map (Pair ChinaStock) (symbols gs)" and ?j2 = "map (Pair ChinaStock) (symbols gh)"
  let ?j3 = "map (Pair Gold) (symbols gg)" and ?j4 = "map (Pair Crypto) (symbols gc)"
  let ?t1 = "snd (run_jobs W ?j1 tr)"
  let ?t2 = "snd (run_jobs W ?j2 ?t1)"
  let ?t3 = "snd (run_jobs W ?j3 ?t2)"
  let ?t4 = "snd (run_jobs W ?j4 ?t3)"
  obtain r1 where 1: "fetch_loop ChinaStock W (symbols gs) [] tr = (Inr r1, ?t1)"
    using fetch_loop_run [OF formattable_ChinaStock, of W "symbols gs" "[]" tr]
      fetch_loop_trace [OF formattable_ChinaStock, of W "symbols gs" "[]" tr] by auto
  obtain r2 where 2: "fetch_loop ChinaStock W (symbols gh) r1 ?t1 = (Inr r2, ?t2)"
    using fetch_loop_run [OF formattable_ChinaStock, of W "symbols gh" r1 ?t1]
      fetch_loop_trace [OF formattable_ChinaStock, of W "symbols gh" r1 ?t1] by auto
  obtain r3 where 3: "fetch_loop Gold W (symbols gg) r2 ?t2 = (Inr r3, ?t3)"
    using fetch_loop_run [OF formattable_Gold, of W "symbols gg" r2 ?t2]
      fetch_loop_trace [OF formattable_Gold, of W "symbols gg" r2 ?t2] by auto
  obtain r4 where 4: "fetch_loop Crypto W (symbols gc) r3 ?t3 = (Inr r4, ?t4)"
    using fetch_loop_run [OF formattable_Crypto [OF assms(5)], of "symbols gc" r3 ?t3]
      fetch_loop_trace [OF formattable_Crypto [OF assms(5)], of "symbols gc" r3 ?t3] by auto
  have "fetchAllPrices W wl tr = (Inr r4, ?t4)"
    using assms(1-4) 1 2 3 4 by (simp add: fetchAllPrices_def group_loop_def)
  then show ?thesis
    by (simp add: all_jobs_def run_jobs_append)
qed

lemma own_keys_no_index:
  "\<forall>k \<in> set (map fst res). array_index k = None \<Longrightarrow> own_keys res = map fst res"
  by (simp add: own_keys_def filter_empty_conv filter_id_conv)

text \<open>
  C1. For a watchlist that has the four groups, in a world where every quote that the
  cryptocurrency adapter returns is one that \<open>formatPrice\<close> accepts (its change is a
  Number and its price has a string conversion), \<open>fetchAllPrices\<close> returns its results
  object whatever the fetches return: it dispatches once per entry of the four groups,
  so no outcome aborts or skips a later symbol, and the object has one property per
  distinct display name other than \<open>__proto__\<close>. The number of properties is the number
  of entries when the display names are pairwise distinct and none is \<open>__proto__\<close>.
\<close>

theorem fetchAllPrices_complete:
  assumes "map_of wl (utf16 ''stocks'') = Some gs" and "map_of wl (utf16 ''hkstocks'') = Some gh"
    and "map_of wl (utf16 ''gold'') = Some gg" and "map_of wl (utf16 ''crypto'') = Some gc"
    and "crypto_formattable W"
    and "names = map name (symbols gs @ symbols gh @ symbols gg @ symbols gc)"
  shows "\<exists>res tr'. fetchAllPrices W wl tr = (Inr res, tr')
           \<and> length (filter is_Dispatch tr') = length (filter is_Dispatch tr) + length names
           \<and> length res = card (set names - {utf16 ''__proto__''})
           \<and> (distinct names \<and> utf16 ''__proto__'' \<notin> set names \<longrightarrow> length res = length names)"
proof -
  obtain res tr' where r: "fetchAllPrices W wl tr = (Inr res, tr')"
    "map fst res = foldl add_key [] names"
    "filter is_Dispatch tr'
       = filter is_Dispatch tr @ dispatches ChinaStock (symbols gs)
         @ dispatches ChinaStock (symbols gh) @ dispatches Gold (symbols gg)
         @ dispatches Crypto (symbols gc)"
    using fetchAllPrices_run [OF assms(1-5), of tr] assms(6) by auto
  have "length (filter is_Dispatch tr') = length (filter is_Dispatch tr) + length names"
    using r(3) assms(6) by (simp add: dispatches_def)
  moreover have "length res = card (set names - {utf16 ''__proto__''})"
  proof -
    have "distinct (map fst res)"
      using r(2) distinct_add_keys [of "[]" names] by simp
    then have "card (set (map fst res)) = length (map fst res)"
      by (rule distinct_card)
    also have "length (map fst res) = length res"
      by simp
    finally have "length res = card (set (map fst res))"
      by simp
    also have "set (map fst res) = set names - {utf16 ''__proto__''}"
      unfolding r(2) using set_add_keys [of "[]" names] by simp
    finally show ?thesis .
  qed
  moreover have "length res = length names"
    if "distinct names" "utf16 ''__proto__'' \<notin> set names"
  proof -
    have "map fst res = names"
      using r(2) add_keys_append [of "[]" names] that by simp
    then show ?thesis
      by (metis length_map)
  qed
  ultimately show ?thesis
    using r(1) by blast
qed

theorem fetchAllPrices_complete_witness:
  "crypto_formattable W_down
   \<and> (\<exists>res tr'. fetchAllPrices W_down DEFAULT_WATCHLIST [] = (Inr res, tr')
         \<and> length (filter is_Dispatch tr') = 12 \<and> length res = 12)"
proof -
  let ?gs = "snd (DEFAULT_WATCHLIST ! 0)" and ?gh = "snd (DEFAULT_WATCHLIST ! 1)"
  let ?gg = "snd (DEFAULT_WATCHLIST ! 2)" and ?gc = "snd (DEFAULT_WATCHLIST ! 3)"
  let ?names = "map name (symbols ?gs @ symbols ?gh @ symbols ?gg @ symbols ?gc)"
  have h1: "map_of DEFAULT_WATCHLIST (utf16 ''stocks'') = Some ?gs"
    by (simp add: DEFAULT_WATCHLIST_def utf16_def)
  have h2: "map_of DEFAULT_WATCHLIST (utf16 ''hkstocks'') = Some ?gh"
    by (simp add: DEFAULT_WATCHLIST_def utf16_def)
  have h3: "map_of DEFAULT_WATCHLIST (utf16 ''gold'') = Some ?gg"
    by (simp add: DEFAULT_WATCHLIST_def utf16_def)
  have h4: "map_of DEFAULT_WATCHLIST (utf16 ''crypto'') = Some ?gc"
    by (simp add: DEFAULT_WATCHLIST_def utf16_def)
  have n: "length ?names = 12" "distinct ?names" "utf16 ''__proto__'' \<notin> set ?names"
    by (simp_all add: DEFAULT_WATCHLIST_def utf16_def)
  from fetchAllPrices_complete [OF h1 h2 h3 h4 crypto_formattable_down refl, of "[]"] n crypto_formattable_down
  show ?thesis by auto
qed

theorem entry_count_counterexample:
  "entry_count wl_twice = 2
   \<and> fst (fetchAllPrices W_down wl_twice []) = Inr [(utf16 ''Moutai'', CROSS)]"
  by (simp add: entry_count_def wl_twice_def single_group_def bound_keys_def fetchAllPrices_def
      group_loop_def run_adapter_def fetchChinaStock_down set_prop_def cell_def utf16_def)

text \<open>
  C7. For a watchlist that has the four groups, in a world where every quote that the
  cryptocurrency adapter returns is one that \<open>formatPrice\<close> accepts (its change is a
  Number and its price has a string conversion), \<open>fetchAllPrices\<close> returns its results
  object after running the four loops in the fixed order \<open>stocks\<close>, \<open>hkstocks\<close>,
  \<open>gold\<close>, \<open>crypto\<close>, whatever the order of the keys of the watchlist, each loop
  taking its entries in configured order: the run is \<open>run_jobs\<close> on \<open>all_jobs\<close>. When
  moreover the display names are pairwise distinct, none is \<open>__proto__\<close> and none is an
  array index, the results object lists exactly the display names in that order, each
  with the value made of the outcome of its own fetch.
\<close>

theorem fetchAllPrices_order:
  assumes "map_of wl (utf16 ''stocks'') = Some gs" and "map_of wl (utf16 ''hkstocks'') = Some gh"
    and "map_of wl (utf16 ''gold'') = Some gg" and "map_of wl (utf16 ''crypto'') = Some gc"
    and "crypto_formattable W"
    and "names = map name (symbols gs @ symbols gh @ symbols gg @ symbols gc)"
  shows "\<exists>res tr'. fetchAllPrices W wl tr = (Inr res, tr')
           \<and> tr' = snd (run_jobs W (all_jobs gs gh gg gc) tr)
           \<and> filter is_Dispatch tr'
               = filter is_Dispatch tr @ dispatches ChinaStock (symbols gs)
                 @ dispatches ChinaStock (symbols gh) @ dispatches Gold (symbols gg)
                 @ dispatches Crypto (symbols gc)
           \<and> (distinct names \<and> utf16 ''__proto__'' \<notin> set names
                \<and> (\<forall>k \<in> set names. array_index k = None)
               \<longrightarrow> own_keys res = names
                   \<and> (\<exists>vs. res = zip names vs
                         \<and> map Inr vs = map (cell W) (fst (run_jobs W (all_jobs gs gh gg gc) tr))))"
proof -
  obtain res tr' where r: "fetchAllPrices W wl tr = (Inr res, tr')"
    "filter is_Dispatch tr'
       = filter is_Dispatch tr @ dispatches ChinaStock (symbols gs)
         @ dispatches ChinaStock (symbols gh) @ dispatches Gold (symbols gg)
         @ dispatches Crypto (symbols gc)"
    using fetchAllPrices_run [OF assms(1-5), of tr] by auto
  have t: "tr' = snd (run_jobs W (all_jobs gs gh gg gc) tr)"
    using fetchAllPrices_trace [OF assms(1-5), of tr] r(1) by simp
  have "own_keys res = names
        \<and> (\<exists>vs. res = zip names vs
              \<and> map Inr vs = map (cell W) (fst (run_jobs W (all_jobs gs gh gg gc) tr)))"
    if d: "distinct names" and p: "utf16 ''__proto__'' \<notin> set names"
      and i: "\<forall>k \<in> set names. array_index k = None"
  proof -
    obtain vs where v:
      "fetchAllPrices W wl tr = (Inr (zip names vs), snd (run_jobs W (all_jobs gs gh gg gc) tr))"
      "map Inr vs = map (cell W) (fst (run_jobs W (all_jobs gs gh gg gc) tr))"
      using fetchAllPrices_values [OF assms(1-6) d p, of tr] by blast
    have "length vs = length (all_jobs gs gh gg gc)"
      using arg_cong [OF v(2), of length] by simp
    then have "length vs = length names"
      using assms(6) by (simp add: all_jobs_def)
    then have k: "map fst (zip names vs) = names"
      by simp
    have "own_keys (zip names vs) = map fst (zip names vs)"
      by (rule own_keys_no_index) (use k i in simp)
    with k have o: "own_keys (zip names vs) = names"
      by simp
    from r(1) v(1) have "res = zip names vs"
      by simp
    with o v(2) show ?thesis
      by blast
  qed
  with r t show ?thesis
    by blast
qed

theorem fetchAllPrices_order_witness:
  "crypto_formattable W_down
   \<and> (\<exists>vs tr'. fetchAllPrices W_down DEFAULT_WATCHLIST [] = (Inr (zip (configured_names DEFAULT_WATCHLIST) vs), tr')
         \<and> own_keys (zip (configured_names DEFAULT_WATCHLIST) vs) = configured_names DEFAULT_WATCHLIST)"
proof -
  let ?gs = "snd (DEFAULT_WATCHLIST ! 0)" and ?gh = "snd (DEFAULT_WATCHLIST ! 1)"
  let ?gg = "snd (DEFAULT_WATCHLIST ! 2)" and ?gc = "snd (DEFAULT_WATCHLIST ! 3)"
  let ?names = "map name (symbols ?gs @ symbols ?gh @ symbols ?gg @ symbols ?gc)"
  have h1: "map_of DEFAULT_WATCHLIST (utf16 ''stocks'') = Some ?gs"
    by (simp add: DEFAULT_WATCHLIST_def utf16_def)
  have h2: "map_of DEFAULT_WATCHLIST (utf16 ''hkstocks'') = Some ?gh"
    by (simp add: DEFAULT_WATCHLIST_def utf16_def)
  have h3: "map_of DEFAULT_WATCHLIST (utf16 ''gold'') = Some ?gg"
    by (simp add: DEFAULT_WATCHLIST_def utf16_def)
  have h4: "map_of DEFAULT_WATCHLIST (utf16 ''crypto'') = Some ?gc"
    by (simp add: DEFAULT_WATCHLIST_def utf16_def)
  have c: "configured_names DEFAULT_WATCHLIST = ?names"
    by (simp add: configured_names_def DEFAULT_WATCHLIST_def)
  have n: "distinct ?names" "utf16 ''__proto__'' \<notin> set ?names"
    by (simp_all add: DEFAULT_WATCHLIST_def utf16_def)
  have i: "\<forall>k \<in> set ?names. array_index k = None"
    by (simp add: DEFAULT_WATCHLIST_def utf16_def array_index_def is_digit_def)
  from fetchAllPrices_order [OF h1 h2 h3 h4 crypto_formattable_down refl, of "[]"] n i
  obtain res tr' where
    "fetchAllPrices W_down DEFAULT_WATCHLIST [] = (Inr res, tr')" "own_keys res = ?names"
    "\<exists>vs. res = zip ?names vs"
    by blast
  with c crypto_formattable_down show ?thesis
    by auto
qed

theorem key_order_counterexample:
  "configured_names wl_tickers = [utf16 ''700'', utf16 ''5'']
   \<and> fst (fetchAllPrices W_down wl_tickers []) = Inr [(utf16 ''700'', CROSS), (utf16 ''5'', CROSS)]
   \<and> own_keys [(utf16 ''700'', CROSS), (utf16 ''5'', CROSS)] = [utf16 ''5'', utf16 ''700'']"
  by (simp add: configured_names_def wl_tickers_def single_group_def bound_keys_def fetchAllPrices_def
      group_loop_def run_adapter_def fetchChinaStock_down set_prop_def cell_def utf16_def own_keys_def
      array_index_def is_digit_def digits_val_def)

section \<open>Numbers: rounding to the nearest double\<close>

lemma pow2_less_iff: "(2::rat) powi m < 2 powi n \<longleftrightarrow> m < n"
proof
  assume l: "(2::rat) powi m < 2 powi n"
  show "m < n"
  proof (rule ccontr)
    assume "\<not> m < n"
    then have "(2::rat) powi n \<le> 2 powi m"
      by (intro power_int_increasing) simp_all
    with l show False by simp
  qed
next
  assume "m < n"
  then show "(2::rat) powi m < 2 powi n"
    by (intro power_int_strict_increasing) simp_all
qed

lemma pow2_le_iff: "(2::rat) powi m \<le> 2 powi n \<longleftrightarrow> m \<le> n"
  using pow2_less_iff [of n m] by (simp add: not_less [symmetric])

lemma pow2_int_bounds:
  fixes p :: int
  assumes "0 < p"
  shows "(2::rat) powi (bitlen p - 1) \<le> of_int p" and "of_int p < (2::rat) powi (bitlen p)"
proof -
  have b: "1 \<le> bitlen p"
    using assms bitlen_nonneg [of p] bitlen_eq_zero_iff [of p] by linarith
  have "2 ^ nat (bitlen p - 1) \<le> p" and "p < 2 ^ nat (bitlen p)"
    using bitlen_bounds [OF assms] by simp_all
  then have "(of_int (2 ^ nat (bitlen p - 1)) :: rat) \<le> of_int p"
    and "(of_int p :: rat) < of_int (2 ^ nat (bitlen p))"
    by (simp_all only: of_int_le_iff of_int_less_iff)
  then show "(2::rat) powi (bitlen p - 1) \<le> of_int p" and "of_int p < (2::rat) powi (bitlen p)"
    using b by (simp_all add: power_int_def)
qed

lemma ilog2_bounds:
  assumes "0 < a"
  shows "2 powi (ilog2 a) \<le> a" and "a < 2 powi (ilog2 a + 1)"
proof -
  obtain p q where pq: "quotient_of a = (p, q)"
    by (cases "quotient_of a")
  have q: "0 < q"
    using quotient_of_denom_pos [OF pq] .
  have a: "a = of_int p / of_int q"
    using quotient_of_div [OF pq] .
  have p: "0 < p"
    using assms a q by (simp add: zero_less_divide_iff)
  let ?d = "bitlen p - bitlen q"
  have lo: "(2::rat) powi (?d - 1) \<le> a"
  proof -
    have "(2::rat) powi (?d - 1) * of_int q \<le> 2 powi (?d - 1) * 2 powi (bitlen q)"
      using pow2_int_bounds(2) [OF q] by (simp add: mult_left_mono)
    also have "\<dots> = 2 powi (bitlen p - 1)"
      by (simp add: power_int_add [symmetric])
    also have "\<dots> \<le> of_int p"
      using pow2_int_bounds(1) [OF p] .
    finally show ?thesis
      using q a by (simp add: pos_le_divide_eq)
  qed
  have hi: "a < (2::rat) powi (?d + 1)"
  proof -
    have "(of_int p :: rat) < 2 powi (bitlen p)"
      using pow2_int_bounds(2) [OF p] .
    also have "\<dots> = 2 powi (?d + 1) * 2 powi (bitlen q - 1)"
      by (simp add: power_int_add [symmetric])
    also have "\<dots> \<le> 2 powi (?d + 1) * of_int q"
      using pow2_int_bounds(1) [OF q] by (simp add: mult_left_mono)
    finally show ?thesis
      using q a by (simp add: pos_divide_less_eq)
  qed
  have i: "ilog2 a = (if 2 powi ?d \<le> a then ?d else ?d - 1)"
    by (simp add: ilog2_def pq Let_def)
  show "2 powi (ilog2 a) \<le> a"
    using lo by (simp add: i)
  show "a < 2 powi (ilog2 a + 1)"
    using hi by (simp add: i not_le)
qed

lemma ilog2_unique:
  assumes "0 < a" and "2 powi e \<le> a" and "a < 2 powi (e + 1)"
  shows "ilog2 a = e"
proof -
  have "(2::rat) powi e < 2 powi (ilog2 a + 1)"
    using assms(2) ilog2_bounds(2) [OF assms(1)] by (rule le_less_trans)
  then have 1: "e < ilog2 a + 1"
    by (simp only: pow2_less_iff)
  have "(2::rat) powi (ilog2 a) < 2 powi (e + 1)"
    using ilog2_bounds(1) [OF assms(1)] assms(3) by (rule le_less_trans)
  then have 2: "ilog2 a < e + 1"
    by (simp only: pow2_less_iff)
  from 1 2 show ?thesis by simp
qed

lemma round_even_of_int [simp]: "round_even (of_int n) = n"
  by (simp add: round_even_def)

lemma round_even_mono:
  assumes "x \<le> y"
  shows "round_even x \<le> round_even y"
proof (cases "\<lfloor>x\<rfloor> = \<lfloor>y\<rfloor>")
  case True
  then show ?thesis
    using assms by (auto simp: round_even_def Let_def)
next
  case False
  then have "\<lfloor>x\<rfloor> + 1 \<le> \<lfloor>y\<rfloor>"
    using floor_mono [OF assms] by simp
  moreover have "round_even x \<le> \<lfloor>x\<rfloor> + 1" and "\<lfloor>y\<rfloor> \<le> round_even y"
    by (simp_all add: round_even_def Let_def)
  ultimately show ?thesis by simp
qed

lemma round_even_minus: "round_even (- x) = - round_even x"
proof (cases "x = of_int \<lfloor>x\<rfloor>")
  case True
  then obtain n where "x = of_int n" ..
  then have "- x = of_int (- n)" by simp
  then show ?thesis
    unfolding \<open>x = of_int n\<close> by (simp only: round_even_of_int of_int_minus [symmetric])
next
  case False
  then have "\<lceil>x\<rceil> = \<lfloor>x\<rfloor> + 1"
    by (simp add: ceiling_altdef)
  moreover have "\<lfloor>- x\<rfloor> = - \<lceil>x\<rceil>"
    by (simp add: ceiling_def)
  ultimately have f: "\<lfloor>- x\<rfloor> = - \<lfloor>x\<rfloor> - 1"
    by simp
  have d: "0 < x - of_int \<lfloor>x\<rfloor>" "x - of_int \<lfloor>x\<rfloor> < 1"
    using False of_int_floor_le [of x] floor_correct [of x] by (simp_all add: less_le)
  show ?thesis
    using d by (auto simp: round_even_def Let_def f)
qed

lemma ulp_eq:
  assumes "x \<noteq> 0" and "2 powi e \<le> \<bar>x\<bar>" and "\<bar>x\<bar> < 2 powi (e + 1)"
  shows "ulp x = 2 powi (max e (- 1022) - 52)"
proof -
  have "0 < \<bar>x\<bar>" using assms(1) by simp
  then have "ilog2 \<bar>x\<bar> = e"
    using assms(2,3) by (rule ilog2_unique)
  then show ?thesis by (simp add: ulp_def bexp_def)
qed

lemma round_double_eval:
  assumes "x \<noteq> 0" and "2 powi e \<le> \<bar>x\<bar>" and "\<bar>x\<bar> < 2 powi (e + 1)" and "- 1022 \<le> e"
    and "round_even (x / 2 powi (e - 52)) = n" and "n \<noteq> 0"
    and "\<bar>of_int n * 2 powi (e - 52)\<bar> < (2::rat) powi 1024"
  shows "round_double x = Fin (of_int n * 2 powi (e - 52))"
proof -
  have u: "ulp x = 2 powi (e - 52)"
    using ulp_eq [OF assms(1-3)] assms(4) by (simp add: max_def)
  have r: "rne x = of_int n * 2 powi (e - 52)"
    using assms(1,5) by (simp add: rne_def u)
  have "of_int n * (2::rat) powi (e - 52) \<noteq> 0"
    using assms(6) by simp
  then show ?thesis
    using assms(7) unfolding round_double_def r Let_def by (simp add: not_le)
qed

lemma round_double_1830: "round_double 1830 = Fin 1830"
  using round_double_eval [of 1830 10 "1830 * 2 ^ 42"]
  by (simp add: round_even_def)

lemma round_double_1835: "round_double 1835 = Fin 1835"
  using round_double_eval [of 1835 10 "1835 * 2 ^ 42"]
  by (simp add: round_even_def)

lemma parseFloat_1830: "parseFloat (utf16 ''1830.00'') = Fin 1830"
  by (simp add: parseFloat_def parse_unsigned_def parse_exponent_def utf16_def is_digit_def
      is_space_def digits_val_def round_double_1830)

lemma parseFloat_1835: "parseFloat (utf16 ''1835.00'') = Fin 1835"
  by (simp add: parseFloat_def parse_unsigned_def parse_exponent_def utf16_def is_digit_def
      is_space_def digits_val_def round_double_1835)

section \<open>The regional-exchange adapter: the positional contract\<close>

lemma str_split_head:
  "sep \<notin> set a \<Longrightarrow> rest = [] \<or> hd rest = sep \<Longrightarrow> \<exists>fs. str_split sep (a @ rest) = a # fs"
  by (cases rest) (auto simp: str_split_no_sep str_split_field)

lemma trailing_fields_head:
  "concat (map (\<lambda>f. sep # f) extra) = [] \<or> hd (concat (map (\<lambda>f. sep # f) extra)) = sep"
  by (cases extra) auto

lemma regional_response_parts:
  assumes "comma \<notin> set nm" and "comma \<notin> set p" and "comma \<notin> set c"
  shows "\<exists>fs. str_split comma (nm @ [comma] @ p @ [comma] @ c @ concat (map (\<lambda>f. comma # f) extra))
              = nm # p # c # fs"
proof -
  obtain fs where "str_split comma (c @ concat (map (\<lambda>f. comma # f) extra)) = c # fs"
    using str_split_head [OF assms(3) trailing_fields_head] by blast
  then show ?thesis
    using assms(1,2) by (simp add: str_split_field)
qed

lemma regional_response_match:
  assumes "dquote \<notin> set pre" and "dquote \<notin> set nm" and "dquote \<notin> set p" and "dquote \<notin> set c"
    and "\<forall>f \<in> set extra. dquote \<notin> set f"
  shows "match_quoted (regional_response pre nm p c extra)
           = Some (nm @ [comma] @ p @ [comma] @ c @ concat (map (\<lambda>f. comma # f) extra))"
proof -
  let ?m = "nm @ [comma] @ p @ [comma] @ c @ concat (map (\<lambda>f. comma # f) extra)"
  have 1: "dquote \<notin> set (pre @ utf16 ''='')"
    using assms(1) by (simp add: utf16_def dquote_def)
  have 2: "dquote \<notin> set ?m"
    using assms(2-5) by (auto simp: dquote_def comma_def)
  have 3: "?m \<noteq> []"
    by simp
  have "regional_response pre nm p c extra = (pre @ utf16 ''='') @ dquote # ?m @ dquote # []"
    by (simp add: regional_response_def)
  then show ?thesis
    using match_quoted_first [OF 1 2 3, of "[]"] by simp
qed

text \<open>
  C3. For a response of the form \<open>symbol="Name,<price>,<change>,...more fields..."\<close>
  that passes the two checks of the adapter (32 code units or more, no \<open>null\<close> in it),
  \<open>fetchChinaStock\<close> takes the first quoted string, splits it on commas and returns
  the quote whose price is \<open>parseFloat\<close> of field 1 and whose change is \<open>parseFloat\<close>
  of field 2, whatever the fields after them are: the contract is positional.
\<close>

theorem fetchChinaStock_positional:
  assumes "fst (axios_get W (china_request s) tr) = Inr (Str (regional_response pre nm p c extra))"
    and "\<not> str_includes (regional_response pre nm p c extra) (utf16 ''null'')"
    and "32 \<le> length (regional_response pre nm p c extra)"
    and "dquote \<notin> set pre" and "dquote \<notin> set nm" and "dquote \<notin> set p" and "dquote \<notin> set c"
    and "\<forall>f \<in> set extra. dquote \<notin> set f"
    and "comma \<notin> set nm" and "comma \<notin> set p" and "comma \<notin> set c"
  shows "fst (fetchChinaStock W s tr) = Some \<lparr>price = Num (parseFloat p), change = Num (parseFloat c)\<rparr>"
proof -
  let ?m = "nm @ [comma] @ p @ [comma] @ c @ concat (map (\<lambda>f. comma # f) extra)"
  have m: "match_quoted (regional_response pre nm p c extra) = Some ?m"
    using assms(4-8) by (rule regional_response_match)
  obtain fs where f: "str_split comma ?m = nm # p # c # fs"
    using regional_response_parts [OF assms(9-11)] by blast
  have "fetchChinaStock_try W s tr
          = (Inr (Some \<lparr>price = Num (parseFloat p), change = Num (parseFloat c)\<rparr>),
             tr @ [HttpGet (china_request s), RegexMatch (regional_response pre nm p c extra)])"
    using assms(1-3) m f
    by (simp add: fetchChinaStock_try_def axios_get_def parseFloat_at_def Let_def)
  then show ?thesis
    by (simp add: fetchChinaStock_def catch_null_def)
qed

theorem fetchChinaStock_positional_witness:
  "length body_moutai = 39
   \<and> fst (fetchChinaStock (W_const (Str body_moutai) (Fin 0)) (utf16 ''sh600519'') [])
       = Some \<lparr>price = Num (Fin 1830), change = Num (Fin 1835)\<rparr>"
proof -
  let ?nm = "[0x8D35, 0x5DDE, 0x8305, 0x53F0] :: jsstring"
  have b: "body_moutai = regional_response (utf16 ''sh600519'') ?nm (utf16 ''1830.00'') (utf16 ''1835.00'') [utf16 ''1820.00'']"
    by (simp add: body_moutai_def)
  have h1: "fst (axios_get (W_const (Str body_moutai) (Fin 0)) (china_request (utf16 ''sh600519'')) [])
            = Inr (Str (regional_response (utf16 ''sh600519'') ?nm (utf16 ''1830.00'') (utf16 ''1835.00'') [utf16 ''1820.00'']))"
    by (simp add: axios_get_def W_const_def b)
  have l: "length body_moutai = 39"
    by (simp add: body_moutai_def regional_response_def utf16_def)
  have h2: "\<not> str_includes (regional_response (utf16 ''sh600519'') ?nm (utf16 ''1830.00'') (utf16 ''1835.00'') [utf16 ''1820.00'']) (utf16 ''null'')"
    by (simp add: regional_response_def utf16_def dquote_def comma_def)
  have h3: "32 \<le> length (regional_response (utf16 ''sh600519'') ?nm (utf16 ''1830.00'') (utf16 ''1835.00'') [utf16 ''1820.00''])"
    using l b by simp
  have q: "dquote \<notin> set (utf16 ''sh600519'')" "dquote \<notin> set ?nm" "dquote \<notin> set (utf16 ''1830.00'')"
    "dquote \<notin> set (utf16 ''1835.00'')" "\<forall>f \<in> set [utf16 ''1820.00'']. dquote \<notin> set f"
    by (simp_all add: utf16_def dquote_def)
  have k: "comma \<notin> set ?nm" "comma \<notin> set (utf16 ''1830.00'')" "comma \<notin> set (utf16 ''1835.00'')"
    by (simp_all add: utf16_def comma_def)
  from fetchChinaStock_positional [OF h1 h2 h3 q k] l show ?thesis
    by (simp add: parseFloat_1830 parseFloat_1835)
qed

theorem short_response_counterexample:
  "length body_short = 28
   \<and> fst (fetchChinaStock (W_const (Str body_short) (Fin 0)) (utf16 ''sh600519'') []) = None"
  by (simp add: body_short_def regional_response_def fetchChinaStock_def fetchChinaStock_try_def
      catch_null_def axios_get_def W_const_def utf16_def)

lemma pow2_add: "(2::rat) powi a * 2 powi b = 2 powi (a + b)"
  by (simp add: power_int_add)

lemma pow2_diff: "(2::rat) powi a / 2 powi b = 2 powi (a - b)"
  by (simp add: power_int_diff)

lemma ulp_pos [simp]: "0 < ulp x"
  by (simp add: ulp_def)

lemma ulp_nonneg [simp]: "0 \<le> ulp x"
  by (simp add: ulp_def)

lemma ulp_minus [simp]: "ulp (- x) = ulp x"
  by (simp add: ulp_def bexp_def)

lemma rne_minus: "rne (- x) = - rne x"
  by (simp add: rne_def round_even_minus)

lemma rne_nonneg:
  assumes "0 \<le> x"
  shows "0 \<le> rne x"
proof -
  have "0 \<le> x / ulp x"
    using assms by (intro divide_nonneg_nonneg) simp_all
  then have "round_even 0 \<le> round_even (x / ulp x)"
    by (rule round_even_mono)
  moreover have "round_even 0 = 0"
    using round_even_of_int [of 0] by simp
  ultimately have "0 \<le> round_even (x / ulp x)"
    by simp
  then show ?thesis
    by (simp add: rne_def)
qed

lemma ilog2_mono:
  assumes "0 < x" and "x \<le> y"
  shows "ilog2 x \<le> ilog2 y"
proof -
  have y: "0 < y" using assms by simp
  have "(2::rat) powi (ilog2 x) \<le> x"
    using ilog2_bounds(1) [OF assms(1)] .
  also have "x \<le> y" by fact
  also have "y < 2 powi (ilog2 y + 1)"
    using ilog2_bounds(2) [OF y] .
  finally have "ilog2 x < ilog2 y + 1"
    by (simp only: pow2_less_iff)
  then show ?thesis by simp
qed

lemma rne_upper:
  assumes "0 < x"
  shows "rne x \<le> 2 powi (bexp x + 1)"
proof -
  have "x < 2 powi (ilog2 x + 1)"
    using ilog2_bounds(2) [OF assms] .
  also have "\<dots> \<le> 2 powi (bexp x + 1)"
    using assms by (simp add: pow2_le_iff bexp_def)
  finally have "x / ulp x \<le> 2 powi (bexp x + 1) / ulp x"
    by (intro divide_right_mono) simp_all
  also have "\<dots> = 2 powi 53"
    by (simp add: ulp_def pow2_diff)
  also have "\<dots> = of_int (2 ^ 53)"
    by simp
  finally have "round_even (x / ulp x) \<le> round_even (of_int (2 ^ 53))"
    by (rule round_even_mono)
  then have "round_even (x / ulp x) \<le> 2 ^ 53"
    by (simp only: round_even_of_int)
  then have "(of_int (round_even (x / ulp x)) :: rat) \<le> of_int (2 ^ 53)"
    by (simp only: of_int_le_iff)
  then have "of_int (round_even (x / ulp x)) * ulp x \<le> of_int (2 ^ 53) * ulp x"
    by (intro mult_right_mono) simp_all
  also have "of_int (2 ^ 53) * ulp x = 2 powi 53 * 2 powi (bexp x - 52)"
    by (simp add: ulp_def)
  also have "\<dots> = 2 powi (53 + (bexp x - 52))"
    by (simp only: pow2_add)
  also have "53 + (bexp x - 52) = bexp x + 1"
    by simp
  finally show ?thesis
    using assms by (simp add: rne_def)
qed

lemma rne_lower:
  assumes "0 < x" and "- 1022 \<le> ilog2 x"
  shows "2 powi (bexp x) \<le> rne x"
proof -
  have b: "bexp x = ilog2 x"
    using assms by (simp add: bexp_def)
  have "(2::rat) powi 52 = 2 powi (bexp x) / ulp x"
    by (simp add: ulp_def pow2_diff)
  also have "\<dots> \<le> x / ulp x"
    using ilog2_bounds(1) [OF assms(1)] unfolding b by (intro divide_right_mono) simp_all
  finally have "of_int (2 ^ 52) \<le> x / ulp x"
    by simp
  then have "round_even (of_int (2 ^ 52)) \<le> round_even (x / ulp x)"
    by (rule round_even_mono)
  then have "2 ^ 52 \<le> round_even (x / ulp x)"
    by (simp only: round_even_of_int)
  then have "(of_int (2 ^ 52) :: rat) \<le> of_int (round_even (x / ulp x))"
    by (simp only: of_int_le_iff)
  then have m: "of_int (2 ^ 52) * ulp x \<le> of_int (round_even (x / ulp x)) * ulp x"
    by (intro mult_right_mono) simp_all
  have "(2::rat) powi (bexp x) = 2 powi (52 + (bexp x - 52))"
    by simp
  also have "\<dots> = 2 powi 52 * 2 powi (bexp x - 52)"
    by (simp only: pow2_add)
  also have "\<dots> = of_int (2 ^ 52) * ulp x"
    by (simp add: ulp_def)
  also have "\<dots> \<le> of_int (round_even (x / ulp x)) * ulp x"
    by (rule m)
  also have "\<dots> = rne x"
    using assms(1) by (simp add: rne_def)
  finally show ?thesis .
qed

lemma rne_mono_pos:
  assumes "0 < x" and "x \<le> y"
  shows "rne x \<le> rne y"
proof -
  have y: "0 < y" using assms by simp
  have e: "bexp x \<le> bexp y"
    using ilog2_mono [OF assms] assms(1) y by (simp add: bexp_def)
  show ?thesis
  proof (cases "bexp x = bexp y")
    case True
    then have u: "ulp x = ulp y"
      by (simp add: ulp_def)
    have "x / ulp y \<le> y / ulp y"
      using assms(2) by (intro divide_right_mono) simp_all
    then have "round_even (x / ulp y) \<le> round_even (y / ulp y)"
      by (rule round_even_mono)
    then have "(of_int (round_even (x / ulp y)) :: rat) \<le> of_int (round_even (y / ulp y))"
      by (simp only: of_int_le_iff)
    then have "of_int (round_even (x / ulp y)) * ulp y \<le> of_int (round_even (y / ulp y)) * ulp y"
      by (intro mult_right_mono) simp_all
    then show ?thesis
      using assms(1) y by (simp add: rne_def u)
  next
    case False
    with e have l: "bexp x + 1 \<le> bexp y"
      by simp
    then have "- 1022 \<le> ilog2 y"
      using y by (simp add: bexp_def max_def split: if_splits)
    then have "2 powi (bexp y) \<le> rne y"
      using rne_lower [OF y] by simp
    moreover have "rne x \<le> 2 powi (bexp x + 1)"
      using rne_upper [OF assms(1)] .
    moreover have "(2::rat) powi (bexp x + 1) \<le> 2 powi (bexp y)"
      using l by (simp only: pow2_le_iff)
    ultimately show ?thesis by linarith
  qed
qed

lemma rne_mono:
  assumes "x \<le> y"
  shows "rne x \<le> rne y"
proof -
  consider "0 < x" | "x \<le> 0" "0 \<le> y" | "y < 0"
    using assms by linarith
  then show ?thesis
  proof cases
    case 1
    then show ?thesis using assms by (rule rne_mono_pos)
  next
    case 2
    have "0 \<le> rne (- x)"
      using 2(1) by (intro rne_nonneg) simp
    then have "rne x \<le> 0"
      by (simp add: rne_minus)
    moreover have "0 \<le> rne y"
      using 2(2) by (rule rne_nonneg)
    ultimately show ?thesis by simp
  next
    case 3
    then have "0 < - y" and "- y \<le> - x"
      using assms by simp_all
    then have "rne (- y) \<le> rne (- x)"
      by (rule rne_mono_pos)
    then show ?thesis
      by (simp add: rne_minus)
  qed
qed

lemma round_double_zero: "round_double 0 = Fin 0"
  by (simp add: round_double_def rne_def)

lemma is_double_fix:
  assumes "is_double b"
  shows "rne b = b" and "\<bar>b\<bar> < 2 powi 1024"
  using assms by (auto simp: is_double_def round_double_def Let_def split: if_splits)

lemma rne_between:
  assumes "is_double lo" and "is_double hi" and "lo \<le> x" and "x \<le> hi"
  shows "lo \<le> rne x" and "rne x \<le> hi"
  using rne_mono [OF assms(3)] rne_mono [OF assms(4)] is_double_fix(1) [OF assms(1)]
    is_double_fix(1) [OF assms(2)]
  by simp_all

lemma round_double_between:
  assumes "is_double lo" and "is_double hi" and "lo \<le> x" and "x \<le> hi"
  shows "\<exists>y. finite_value (round_double x) = Some y \<and> lo \<le> y \<and> y \<le> hi"
proof -
  have b: "lo \<le> rne x" "rne x \<le> hi"
    using rne_between [OF assms] by simp_all
  have "\<bar>rne x\<bar> < 2 powi 1024"
    using b is_double_fix(2) [OF assms(1)] is_double_fix(2) [OF assms(2)] by linarith
  then have "finite_value (round_double x) = Some (rne x)"
    by (auto simp: round_double_def Let_def)
  with b show ?thesis by blast
qed

lemma fadd_between:
  assumes "finite_value a = Some u" and "finite_value b = Some v"
    and "is_double lo" and "is_double hi" and "lo \<le> u + v" and "u + v \<le> hi"
  shows "\<exists>y. finite_value (fadd a b) = Some y \<and> lo \<le> y \<and> y \<le> hi"
proof (cases a)
  case (Fin u')
  show ?thesis
  proof (cases b)
    case (Fin v')
    then show ?thesis
      using assms \<open>a = Fin u'\<close> round_double_between [of lo hi "u + v"] by simp
  qed (use assms Fin in auto)
qed (use assms in \<open>auto elim: finite_value.elims\<close>)

lemma fmul_between:
  assumes "finite_value a = Some u" and "finite_value b = Some v"
    and "is_double lo" and "is_double hi" and "lo \<le> u * v" and "u * v \<le> hi"
  shows "\<exists>y. finite_value (fmul a b) = Some y \<and> lo \<le> y \<and> y \<le> hi"
proof (cases "u = 0 \<or> v = 0")
  case True
  then have "is_zero a \<or> is_zero b"
    using assms(1,2) by (auto elim!: finite_value.elims)
  moreover have "a \<noteq> NaN" "b \<noteq> NaN" "a \<noteq> PosInf" "a \<noteq> NegInf" "b \<noteq> PosInf" "b \<noteq> NegInf"
    using assms(1,2) by auto
  ultimately have "fmul a b = Fin 0 \<or> fmul a b = NegZero"
    by (cases a; cases b) auto
  then have "finite_value (fmul a b) = Some 0"
    by auto
  then show ?thesis
    using True assms(5,6) by auto
next
  case False
  then have "a = Fin u" "b = Fin v"
    using assms(1,2) by (auto elim!: finite_value.elims)
  then have "fmul a b = round_double (u * v)"
    using False by simp
  then show ?thesis
    using round_double_between [OF assms(3-6)] by simp
qed

section \<open>The doubles of the precious-metals adapter\<close>

lemma floor_numeral_div: "\<lfloor>(numeral a :: rat) / numeral b\<rfloor> = numeral a div numeral b"
  using floor_divide_of_int_eq [of "numeral a" "numeral b", where ?'a = rat] by simp

lemma floor_neg_numeral_div: "\<lfloor>- ((numeral a :: rat) / numeral b)\<rfloor> = - numeral a div numeral b"
  using floor_divide_of_int_eq [of "- numeral a" "numeral b", where ?'a = rat] by simp

lemma is_double_half: "is_double (1 / 2)"
  unfolding is_double_def
  using round_double_eval [of "1 / 2" "- 1" "4503599627370496"]
  by (simp add: round_even_def Let_def floor_numeral_div floor_neg_numeral_div)

lemma is_double_neg_half: "is_double (- (1 / 2))"
  unfolding is_double_def
  using round_double_eval [of "- (1 / 2)" "- 1" "(- 4503599627370496)"]
  by (simp add: round_even_def Let_def floor_numeral_div floor_neg_numeral_div)

lemma is_double_one: "is_double (1)"
  unfolding is_double_def
  using round_double_eval [of "1" "0" "4503599627370496"]
  by (simp add: round_even_def Let_def floor_numeral_div floor_neg_numeral_div)

lemma is_double_neg_one: "is_double (- 1)"
  unfolding is_double_def
  using round_double_eval [of "- 1" "0" "(- 4503599627370496)"]
  by (simp add: round_even_def Let_def floor_numeral_div floor_neg_numeral_div)

lemma is_double_two: "is_double (2)"
  unfolding is_double_def
  using round_double_eval [of "2" "1" "4503599627370496"]
  by (simp add: round_even_def Let_def floor_numeral_div floor_neg_numeral_div)

lemma is_double_below_half: "is_double (4503599627370495 / 9007199254740992)"
  unfolding is_double_def
  using round_double_eval [of "4503599627370495 / 9007199254740992" "- 2" "9007199254740990"]
  by (simp add: round_even_def Let_def floor_numeral_div floor_neg_numeral_div)

lemma is_double_below_one: "is_double (4503599627370495 / 4503599627370496)"
  unfolding is_double_def
  using round_double_eval [of "4503599627370495 / 4503599627370496" "- 1" "9007199254740990"]
  by (simp add: round_even_def Let_def floor_numeral_div floor_neg_numeral_div)

lemma is_double_2649: "is_double (2649)"
  unfolding is_double_def
  using round_double_eval [of "2649" "11" "5825212603957248"]
  by (simp add: round_even_def Let_def floor_numeral_div floor_neg_numeral_div)

lemma is_double_2650: "is_double (2650)"
  unfolding is_double_def
  using round_double_eval [of "2650" "11" "5827411627212800"]
  by (simp add: round_even_def Let_def floor_numeral_div floor_neg_numeral_div)

lemma is_double_2651: "is_double (2651)"
  unfolding is_double_def
  using round_double_eval [of "2651" "11" "5829610650468352"]
  by (simp add: round_even_def Let_def floor_numeral_div floor_neg_numeral_div)

lemma is_double_619: "is_double (619)"
  unfolding is_double_def
  using round_double_eval [of "619" "9" "5444781580746752"]
  by (simp add: round_even_def Let_def floor_numeral_div floor_neg_numeral_div)

lemma is_double_620: "is_double (620)"
  unfolding is_double_def
  using round_double_eval [of "620" "9" "5453577673768960"]
  by (simp add: round_even_def Let_def floor_numeral_div floor_neg_numeral_div)

lemma is_double_621: "is_double (621)"
  unfolding is_double_def
  using round_double_eval [of "621" "9" "5462373766791168"]
  by (simp add: round_even_def Let_def floor_numeral_div floor_neg_numeral_div)

lemma is_double_tenth: "is_double (dbl_tenth)"
  unfolding is_double_def dbl_tenth_def
  using round_double_eval [of "3602879701896397 / 36028797018963968" "- 4" "7205759403792794"]
  by (simp add: round_even_def Let_def floor_numeral_div floor_neg_numeral_div)

lemma is_double_neg_tenth: "is_double (- dbl_tenth)"
  unfolding is_double_def dbl_tenth_def
  using round_double_eval [of "- (3602879701896397 / 36028797018963968)" "- 4" "(- 7205759403792794)"]
  by (simp add: round_even_def Let_def floor_numeral_div floor_neg_numeral_div)

lemma is_double_three_tenths: "is_double (dbl_three_tenths)"
  unfolding is_double_def dbl_three_tenths_def
  using round_double_eval [of "5404319552844595 / 18014398509481984" "- 2" "5404319552844595"]
  by (simp add: round_even_def Let_def floor_numeral_div floor_neg_numeral_div)

lemma is_double_draw_max: "is_double (draw_max)"
  unfolding is_double_def draw_max_def
  using round_double_eval [of "9007199254740991 / 9007199254740992" "- 1" "9007199254740991"]
  by (simp add: round_even_def Let_def floor_numeral_div floor_neg_numeral_div)

lemma round_tenth: "round_double (1 / 10) = Fin (3602879701896397 / 36028797018963968)"
  using round_double_eval [of "1 / 10" "- 4" "7205759403792794"]
  by (simp add: round_even_def Let_def floor_numeral_div floor_neg_numeral_div)

lemma round_three_tenths: "round_double (3 / 10) = Fin (5404319552844595 / 18014398509481984)"
  using round_double_eval [of "3 / 10" "- 2" "5404319552844595"]
  by (simp add: round_even_def Let_def floor_numeral_div floor_neg_numeral_div)

lemma edge_sub: "round_double (4503599627370495 / 9007199254740992) = Fin (4503599627370495 / 9007199254740992)"
  using round_double_eval [of "4503599627370495 / 9007199254740992" "- 2" "9007199254740990"]
  by (simp add: round_even_def Let_def floor_numeral_div floor_neg_numeral_div)

lemma edge_variance: "round_double (4503599627370495 / 4503599627370496) = Fin (4503599627370495 / 4503599627370496)"
  using round_double_eval [of "4503599627370495 / 4503599627370496" "- 1" "9007199254740990"]
  by (simp add: round_even_def Let_def floor_numeral_div floor_neg_numeral_div)

lemma edge_price: "round_double (11939042612159184895 / 4503599627370496) = Fin (2651)"
  using round_double_eval [of "11939042612159184895 / 4503599627370496" "11" "5829610650468352"]
  by (simp add: round_even_def Let_def floor_numeral_div floor_neg_numeral_div)

lemma edge_scaled: "round_double (16225927682921333636998024606515 / 162259276829213363391578010288128) = Fin (900719925474099 / 9007199254740992)"
  using round_double_eval [of "16225927682921333636998024606515 / 162259276829213363391578010288128" "- 4" "7205759403792792"]
  by (simp add: round_even_def Let_def floor_numeral_div floor_neg_numeral_div)

lemma edge_change: "round_double (5404319552844595 / 9007199254740992) = Fin (5404319552844595 / 9007199254740992)"
  using round_double_eval [of "5404319552844595 / 9007199254740992" "- 1" "5404319552844595"]
  by (simp add: round_even_def Let_def floor_numeral_div floor_neg_numeral_div)

lemma lit_values:
  "lit 2650 = Fin 2650" "lit 620 = Fin 620" "lit (1 / 2) = Fin (1 / 2)" "lit 2 = Fin 2"
  "lit (3 / 10) = Fin dbl_three_tenths" "lit (1 / 10) = Fin dbl_tenth"
  using is_double_2650 is_double_620 is_double_half is_double_two round_three_tenths round_tenth
  by (simp_all add: lit_def is_double_def dbl_three_tenths_def dbl_tenth_def)

lemma mockData_known:
  assumes "(s, b, c) \<in> set known_metals"
  shows "obj_get mockData s = Obj [(utf16 ''base'', Num (Fin b)), (utf16 ''change'', Num (Fin c))]"
  using assms by (auto simp: known_metals_def mockData_def obj_get_def lit_values utf16_def)

lemma fetchGold_known:
  assumes "(s, b, c) \<in> set known_metals"
  shows "fetchGold W s tr =
     (Some \<lparr>price = Num (fadd (Fin b) (fmul (fsub (rand W (length (filter (\<lambda>e. e = RandomDraw) tr))) (lit (1 / 2))) (lit 2))),
             change = Num (fadd (Fin c)
               (fmul (fmul (fsub (rand W (length (filter (\<lambda>e. e = RandomDraw) tr))) (lit (1 / 2))) (lit 2))
                  (lit (1 / 10))))\<rparr>,
      tr @ [RandomDraw])"
proof -
  have d: "obj_get mockData s = Obj [(utf16 ''base'', Num (Fin b)), (utf16 ''change'', Num (Fin c))]"
    using assms by (rule mockData_known)
  show ?thesis
    unfolding fetchGold_def fetchGold_try_def d
    by (simp add: catch_null_def math_random_def get_member_def obj_get_def js_add_def Let_def
        utf16_def)
qed

lemma double_below_one:
  assumes "is_double q" and "q < 1"
  shows "q \<le> draw_max"
proof (cases "q < 1 / 2")
  case True
  then show ?thesis by (simp add: draw_max_def)
next
  case False
  then have q: "0 < \<bar>q\<bar>" "2 powi (- 1) \<le> \<bar>q\<bar>" "\<bar>q\<bar> < 2 powi (- 1 + 1)"
    using assms(2) by (simp_all add: power_int_minus)
  have "q \<noteq> 0" using q(1) by simp
  then have u: "ulp q = 2 powi (- 53)"
    using ulp_eq [of q "- 1"] q(2,3) by simp
  let ?n = "round_even (q / ulp q)"
  have r: "q = of_int ?n * 2 powi (- 53)"
    using is_double_fix(1) [OF assms(1)] \<open>q \<noteq> 0\<close> by (simp add: rne_def u)
  then have "of_int ?n * (2::rat) powi (- 53) < 1"
    using assms(2) by simp
  then have "(of_int ?n :: rat) < of_int (2 ^ 53)"
    by (simp add: power_int_minus field_simps)
  then have "?n < 2 ^ 53"
    by (simp only: of_int_less_iff)
  then have "?n \<le> 2 ^ 53 - 1"
    by simp
  then have "(of_int ?n :: rat) \<le> of_int (2 ^ 53 - 1)"
    by (simp only: of_int_le_iff)
  then have "of_int ?n * (2::rat) powi (- 53) \<le> of_int (2 ^ 53 - 1) * 2 powi (- 53)"
    by (intro mult_right_mono) simp_all
  also have "\<dots> = draw_max"
    by (simp add: draw_max_def power_int_minus)
  finally show ?thesis
    using r by simp
qed

lemma variance_bounds:
  assumes "is_double q" and "0 \<le> q" and "q < 1"
  shows "\<exists>v. finite_value (fmul (fsub (Fin q) (lit (1 / 2))) (lit 2)) = Some v \<and> - 1 \<le> v \<and> v < 1"
proof -
  have q: "q \<le> draw_max"
    using assms(1,3) by (rule double_below_one)
  have s: "fsub (Fin q) (Fin (1 / 2)) = fadd (Fin q) (Fin (- (1 / 2)))"
    by (simp add: fsub_def)
  obtain t where t: "finite_value (fadd (Fin q) (Fin (- (1 / 2)))) = Some t"
    "- (1 / 2) \<le> t" "t \<le> 4503599627370495 / 9007199254740992"
    using fadd_between [of "Fin q" q "Fin (- (1 / 2))" "- (1 / 2)" "- (1 / 2)"
        "4503599627370495 / 9007199254740992", OF _ _ is_double_neg_half is_double_below_half]
      assms(2) q
    by (auto simp: draw_max_def)
  obtain v where v: "finite_value (fmul (fadd (Fin q) (Fin (- (1 / 2)))) (Fin 2)) = Some v"
    "- 1 \<le> v" "v \<le> 4503599627370495 / 4503599627370496"
    using fmul_between [of "fadd (Fin q) (Fin (- (1 / 2)))" t "Fin 2" 2 "- 1"
        "4503599627370495 / 4503599627370496", OF t(1) _ is_double_neg_one is_double_below_one]
      t(2,3)
    by auto
  have e: "fmul (fsub (Fin q) (lit (1 / 2))) (lit 2) = fmul (fadd (Fin q) (Fin (- (1 / 2)))) (Fin 2)"
    by (simp only: lit_values s)
  have "v < 1"
    using v(3) by simp
  with v(1,2) show ?thesis
    unfolding e by blast
qed

lemma is_double_zero: "is_double 0"
  by (simp add: is_double_def round_double_zero)

lemma dbl_tenth_pos: "0 < dbl_tenth"
  by (simp add: dbl_tenth_def)

lemma gold_quote_bounds:
  assumes V: "finite_value V = Some v" "- 1 \<le> v" "v < 1"
    and b: "is_double (b - 1)" "is_double b" "is_double (b + 1)"
    and c: "is_double c" "dbl_tenth \<le> c" "c + dbl_tenth \<le> 1"
  shows "\<exists>p c'. finite_value (fadd (Fin b) V) = Some p
           \<and> finite_value (fadd (Fin c) (fmul V (lit (1 / 10)))) = Some c'
           \<and> \<bar>p - b\<bar> \<le> 1
           \<and> (0 \<le> v \<longrightarrow> b \<le> p \<and> c \<le> c') \<and> (v \<le> 0 \<longrightarrow> p \<le> b \<and> c' \<le> c)"
proof -
  have P: "\<exists>y. finite_value (fadd (Fin b) V) = Some y \<and> lo \<le> y \<and> y \<le> hi"
    if "is_double lo" "is_double hi" "lo \<le> b + v" "b + v \<le> hi" for lo hi
    using fadd_between [of "Fin b" b V v lo hi] V(1) that by simp
  obtain p where p: "finite_value (fadd (Fin b) V) = Some p" "b - 1 \<le> p" "p \<le> b + 1"
    using P [OF b(1) b(3)] V(2,3) by auto
  have p_up: "b \<le> p" if "0 \<le> v"
    using P [OF b(2) b(3)] V(3) that p(1) by auto
  have p_down: "p \<le> b" if "v \<le> 0"
    using P [OF b(1) b(2)] V(2) that p(1) by auto
  let ?W = "fmul V (Fin dbl_tenth)"
  have W: "\<exists>y. finite_value ?W = Some y \<and> lo \<le> y \<and> y \<le> hi"
    if "is_double lo" "is_double hi" "lo \<le> v * dbl_tenth" "v * dbl_tenth \<le> hi" for lo hi
    using fmul_between [of V v "Fin dbl_tenth" dbl_tenth lo hi] V(1) that by simp
  have m: "- dbl_tenth \<le> v * dbl_tenth" "v * dbl_tenth \<le> dbl_tenth"
    using V(2,3) dbl_tenth_pos by (simp_all add: dbl_tenth_def)
  obtain w where w: "finite_value ?W = Some w" "- dbl_tenth \<le> w" "w \<le> dbl_tenth"
    using W [OF is_double_neg_tenth is_double_tenth m] by auto
  have w_up: "0 \<le> w" if "0 \<le> v"
    using W [OF is_double_zero is_double_tenth _ m(2)] that dbl_tenth_pos w(1) by auto
  have w_down: "w \<le> 0" if "v \<le> 0"
    using W [OF is_double_neg_tenth is_double_zero m(1)] that dbl_tenth_pos w(1)
    by (auto simp: mult_le_0_iff)
  have C: "\<exists>y. finite_value (fadd (Fin c) ?W) = Some y \<and> lo \<le> y \<and> y \<le> hi"
    if "is_double lo" "is_double hi" "lo \<le> c + w" "c + w \<le> hi" for lo hi
    using fadd_between [of "Fin c" c ?W w lo hi] w(1) that by simp
  obtain c' where c': "finite_value (fadd (Fin c) ?W) = Some c'"
    using C [OF is_double_zero is_double_one] w(2,3) c(2,3) by auto
  have c_up: "c \<le> c'" if "0 \<le> v"
    using C [OF c(1) is_double_one] w_up [OF that] w(3) c(3) c' by auto
  have c_down: "c' \<le> c" if "v \<le> 0"
    using C [OF is_double_zero c(1)] w_down [OF that] w(2) c(2) c' by auto
  have "\<bar>p - b\<bar> \<le> 1"
    using p(2,3) by (simp add: abs_le_iff)
  with p(1) c' p_up p_down c_up c_down show ?thesis
    by (auto simp: lit_values)
qed

section \<open>The precious-metals adapter: the perturbation\<close>

lemma is_double_quarter: "is_double (1 / 4)"
  unfolding is_double_def
  using round_double_eval [of "1 / 4" "- 2" "4503599627370496"]
  by (simp add: round_even_def Let_def floor_numeral_div floor_neg_numeral_div)

lemma is_double_neg_quarter: "is_double (- (1 / 4))"
  unfolding is_double_def
  using round_double_eval [of "- (1 / 4)" "- 2" "(- 4503599627370496)"]
  by (simp add: round_even_def Let_def floor_numeral_div floor_neg_numeral_div)

lemma known_metal_doubles:
  assumes "(s, b, c) \<in> set known_metals"
  shows "is_double (b - 1)" "is_double b" "is_double (b + 1)"
    "is_double c" "dbl_tenth \<le> c" "c + dbl_tenth \<le> 1"
proof -
  have "(s, b, c) = (utf16 ''XAUUSD'', 2650, 1 / 2) \<or> (s, b, c) = (utf16 ''AU9999'', 620, dbl_three_tenths)"
    using assms unfolding known_metals_def by (simp only: list.set insert_iff empty_iff) blast
  then have d: "(b = 2650 \<and> c = 1 / 2) \<or> (b = 620 \<and> c = dbl_three_tenths)"
    by blast
  have x: "is_double (2650 - 1) \<and> is_double 2650 \<and> is_double (2650 + 1) \<and> is_double (1 / 2)
      \<and> dbl_tenth \<le> 1 / 2 \<and> 1 / 2 + dbl_tenth \<le> 1"
    using is_double_2649 is_double_2650 is_double_2651 is_double_half
    by (simp add: dbl_tenth_def)
  have a: "is_double (620 - 1) \<and> is_double 620 \<and> is_double (620 + 1) \<and> is_double dbl_three_tenths
      \<and> dbl_tenth \<le> dbl_three_tenths \<and> dbl_three_tenths + dbl_tenth \<le> 1"
    using is_double_619 is_double_620 is_double_621 is_double_three_tenths
    by (simp add: dbl_tenth_def dbl_three_tenths_def)
  from d x a show "is_double (b - 1)" "is_double b" "is_double (b + 1)"
    "is_double c" "dbl_tenth \<le> c" "c + dbl_tenth \<le> 1"
    by blast+
qed

text \<open>
  C10. For a known instrument and a draw \<open>q\<close> that is a double in \<open>[0, 1)\<close>,
  \<open>fetchGold\<close> returns the quote with price \<open>base + v\<close> and change
  \<open>change + v * 0.1\<close>, where \<open>v = (q - 0.5) * 2\<close> and every operation is the rounded
  one of doubles. The value of \<open>v\<close> lies in \<open>[-1, 1)\<close>; the price differs from the base
  price by at most 1; and the price and the change are not below their base values when
  \<open>v\<close> is not negative, not above them when \<open>v\<close> is not positive.
\<close>

theorem fetchGold_perturbation:
  assumes "(s, b, c) \<in> set known_metals"
    and "rand W (length (filter (\<lambda>e. e = RandomDraw) tr)) = Fin q"
    and "is_double q" and "0 \<le> q" and "q < 1"
  shows "\<exists>v p c'.
           fst (fetchGold W s tr)
             = Some \<lparr>price = Num (fadd (Fin b) (variance_of q)),
                     change = Num (fadd (Fin c) (fmul (variance_of q) (lit (1 / 10))))\<rparr>
         \<and> finite_value (variance_of q) = Some v \<and> - 1 \<le> v \<and> v < 1
         \<and> finite_value (fadd (Fin b) (variance_of q)) = Some p
         \<and> finite_value (fadd (Fin c) (fmul (variance_of q) (lit (1 / 10)))) = Some c'
         \<and> \<bar>p - b\<bar> \<le> 1
         \<and> (0 \<le> v \<longrightarrow> b \<le> p \<and> c \<le> c') \<and> (v \<le> 0 \<longrightarrow> p \<le> b \<and> c' \<le> c)"
proof -
  have f: "fst (fetchGold W s tr)
             = Some \<lparr>price = Num (fadd (Fin b) (variance_of q)),
                     change = Num (fadd (Fin c) (fmul (variance_of q) (lit (1 / 10))))\<rparr>"
    by (simp add: fetchGold_known [OF assms(1)] assms(2) variance_of_def)
  obtain v where v: "finite_value (variance_of q) = Some v" "- 1 \<le> v" "v < 1"
    using variance_bounds [OF assms(3-5)] unfolding variance_of_def by blast
  obtain p c' where "finite_value (fadd (Fin b) (variance_of q)) = Some p"
    "finite_value (fadd (Fin c) (fmul (variance_of q) (lit (1 / 10)))) = Some c'"
    "\<bar>p - b\<bar> \<le> 1" "0 \<le> v \<longrightarrow> b \<le> p \<and> c \<le> c'" "v \<le> 0 \<longrightarrow> p \<le> b \<and> c' \<le> c"
    using gold_quote_bounds [OF v known_metal_doubles [OF assms(1)]] by blast
  with f v show ?thesis by blast
qed

theorem fetchGold_perturbation_witness:
  "is_double (1 / 4)
   \<and> (\<exists>v p c'.
         fst (fetchGold (W_const Undefined (Fin (1 / 4))) (utf16 ''XAUUSD'') [])
           = Some \<lparr>price = Num (fadd (Fin 2650) (variance_of (1 / 4))),
                   change = Num (fadd (Fin (1 / 2)) (fmul (variance_of (1 / 4)) (lit (1 / 10))))\<rparr>
       \<and> finite_value (variance_of (1 / 4)) = Some v \<and> - 1 \<le> v \<and> v < 1
       \<and> finite_value (fadd (Fin 2650) (variance_of (1 / 4))) = Some p
       \<and> finite_value (fadd (Fin (1 / 2)) (fmul (variance_of (1 / 4)) (lit (1 / 10)))) = Some c'
       \<and> \<bar>p - 2650\<bar> \<le> 1 \<and> p \<le> 2650 \<and> c' \<le> 1 / 2)"
proof -
  have k: "(utf16 ''XAUUSD'', 2650, 1 / 2) \<in> set known_metals"
    by (simp add: known_metals_def)
  have r: "rand (W_const Undefined (Fin (1 / 4))) (length (filter (\<lambda>e. e = RandomDraw) [])) = Fin (1 / 4)"
    by (simp add: W_const_def)
  have n: "variance_of (1 / 4) = Fin (- (1 / 2))"
    using is_double_neg_quarter is_double_neg_half
    by (simp add: variance_of_def lit_values fsub_def is_double_def)
  from fetchGold_perturbation [OF k r is_double_quarter] is_double_quarter n
  show ?thesis by auto
qed

theorem price_offset_counterexample:
  "is_double draw_max \<and> 0 \<le> draw_max \<and> draw_max < 1
   \<and> fst (fetchGold (W_const Undefined (Fin draw_max)) (utf16 ''XAUUSD'') [])
       = Some \<lparr>price = Num (Fin 2651), change = Num (Fin (5404319552844595 / 9007199254740992))\<rparr>
   \<and> \<not> \<bar>2651 - 2650\<bar> < (1::rat)
   \<and> 5404319552844595 / 9007199254740992 - 1 / 2 \<noteq> ((2651 - 2650) / 10 :: rat)"
proof -
  have k: "(utf16 ''XAUUSD'', 2650, 1 / 2) \<in> set known_metals"
    by (simp add: known_metals_def)
  have v: "variance_of draw_max = Fin (4503599627370495 / 4503599627370496)"
    by (simp add: variance_of_def lit_values fsub_def draw_max_def edge_sub edge_variance)
  have p: "fadd (Fin 2650) (Fin (4503599627370495 / 4503599627370496)) = Fin 2651"
    by (simp add: edge_price)
  have c: "fadd (Fin (1 / 2)) (fmul (Fin (4503599627370495 / 4503599627370496)) (lit (1 / 10)))
             = Fin (5404319552844595 / 9007199254740992)"
    by (simp add: lit_values dbl_tenth_def edge_scaled edge_change)
  have "fst (fetchGold (W_const Undefined (Fin draw_max)) (utf16 ''XAUUSD'') [])
          = Some \<lparr>price = Num (Fin 2651), change = Num (Fin (5404319552844595 / 9007199254740992))\<rparr>"
    using v p c by (simp add: fetchGold_known [OF k] W_const_def variance_of_def)
  moreover have "0 \<le> draw_max" "draw_max < 1"
    by (simp_all add: draw_max_def)
  ultimately show ?thesis
    using is_double_draw_max by simp
qed

section \<open>Further facts about the adapters\<close>

text \<open>
  The rest of what is said of \<open>fetchGold\<close> holds: an instrument that is neither known
  nor an inherited name gives \<open>null\<close> without a draw, and the result depends on the
  world only through the draw.
\<close>

lemma fetchGold_unknown:
  assumes "map_of mockData s = None" and "s \<notin> set object_prototype_keys"
  shows "fetchGold W s tr = (None, tr)"
  using assms
  by (simp add: fetchGold_def fetchGold_try_def catch_null_def obj_get_def object_prototype_def)

lemma js_add_numbers:
  "is_primitive_number a \<Longrightarrow> js_add W a (Num n) = Inr (Num (fadd (ToNumber a) n))"
  by (simp add: js_add_def)

lemma mockData_member_primitive:
  assumes "truthy (obj_get mockData s)" and "get_member (obj_get mockData s) k = Inr m"
    and "k = utf16 ''base'' \<or> k = utf16 ''change''"
  shows "is_primitive_number m"
proof -
  consider "obj_get mockData s = Undefined" | j where "obj_get mockData s = ProtoMember j"
    | b c where "obj_get mockData s = Obj [(utf16 ''base'', Num b), (utf16 ''change'', Num c)]"
    using mockData_cases by blast
  then show ?thesis
  proof cases
    case 1
    with assms(1) show ?thesis by simp
  next
    case 2
    with assms(2,3) show ?thesis
      by (auto simp: get_member_def object_prototype_def object_prototype_keys_def utf16_def)
  next
    case 3
    with assms(2,3) show ?thesis
      by (auto simp: get_member_def obj_get_def utf16_def)
  qed
qed

lemma fetchGold_deterministic:
  assumes "rand W (length (filter (\<lambda>e. e = RandomDraw) tr))
           = rand W' (length (filter (\<lambda>e. e = RandomDraw) tr'))"
  shows "fst (fetchGold W s tr) = fst (fetchGold W' s tr')"
proof (cases "truthy (obj_get mockData s)")
  case False
  then show ?thesis
    by (simp add: fetchGold_def fetchGold_try_def catch_null_def)
next
  case True
  then have n: "obj_get mockData s \<noteq> Undefined" "obj_get mockData s \<noteq> Null"
    by auto
  then obtain b c where m: "get_member (obj_get mockData s) (utf16 ''base'') = Inr b"
    "get_member (obj_get mockData s) (utf16 ''change'') = Inr c"
    by (cases "obj_get mockData s") (auto simp: get_member_def)
  have p: "is_primitive_number b" "is_primitive_number c"
    using mockData_member_primitive [OF True m(1)] mockData_member_primitive [OF True m(2)]
    by simp_all
  show ?thesis
    using True m assms
    by (simp add: fetchGold_def fetchGold_try_def catch_null_def math_random_def Let_def
        js_add_numbers [OF p(1)] js_add_numbers [OF p(2)])
qed

text \<open>
  A partial quote does not stay inside the adapter: \<open>formatPrice\<close> throws on its
  \<open>undefined\<close> change, and \<open>fetchAllPrices\<close> ends with the error.
\<close>

lemma partial_quote_aborts:
  "fst (fetchAllPrices
         (W_const (Obj [(utf16 ''bitcoin'', Obj [(utf16 ''cny'', Num (lit (43500012 / 100)))])]) (Fin 0))
         (single_group (utf16 ''crypto'') [\<lparr>symbol = utf16 ''bitcoin'', name = utf16 ''BTC''\<rparr>]) [])
   = Inl TypeError"
proof -
  let ?W = "W_const (Obj [(utf16 ''bitcoin'', Obj [(utf16 ''cny'', Num (lit (43500012 / 100)))])]) (Fin 0)"
  have "fetchCrypto ?W (utf16 ''bitcoin'') tr
          = (Some \<lparr>price = Num (lit (43500012 / 100)), change = Undefined\<rparr>,
             tr @ [HttpGet (crypto_request ?W (utf16 ''bitcoin''))])" for tr
    by (simp add: fetchCrypto_def fetchCrypto_try_def catch_null_def axios_get_def W_const_def
        obj_get_def idMap_def get_member_def utf16_def object_prototype_def
        object_prototype_keys_def)
  then show ?thesis
    by (simp add: single_group_def bound_keys_def fetchAllPrices_def group_loop_def run_adapter_def
        cell_def formatPrice_def utf16_def)
qed

text \<open>
  The conversion to a string: an object of JSON with a property \<open>toString\<close> of its own
  has none, nor has an array that holds one; the other arrays print their elements
  between commas.
\<close>

lemma ToString_own_toString:
  "ToString W (Obj [(utf16 ''toString'', Num (Fin 1))]) = Inl TypeError"
  by simp

lemma ToString_array_own_toString:
  "ToString W (Arr [Null, Obj [(utf16 ''toString'', Num (Fin 1))]]) = Inl TypeError"
  by simp

lemma ToString_array:
  "ToString W (Arr [Str (utf16 ''a''), Null, Arr [], Obj []]) = Inr (utf16 ''a,,,[object Object]'')"
  by (simp add: utf16_def comma_def)

text \<open>\<open>idMap[symbol]\<close> always has a string conversion, so the URL of \<open>fetchCrypto\<close> is always built.\<close>

lemma idMap_key_string: "\<not> isl (ToString W (obj_get idMap s))"
  by (auto simp: obj_get_def idMap_def object_prototype_def)

text \<open>\<open>formatPrice\<close> returns its string for the quotes here called formattable and for no other.\<close>

lemma formatPrice_accepts:
  "(\<exists>v. formatPrice W p c = Inr v) = formattable W \<lparr>price = p, change = c\<rparr>"
  by (cases c; cases "ToString W p") (simp_all add: formatPrice_def formattable_def Let_def)

text \<open>
  A quote whose price has no string conversion does not stay inside the adapter either:
  \<open>formatPrice\<close> throws on it, although its change is a Number, and \<open>fetchAllPrices\<close>
  ends with the error.
\<close>

lemma object_price_aborts:
  "fst (fetchAllPrices
         (W_const (Obj [(utf16 ''bitcoin'',
                         Obj [(utf16 ''cny'', Obj [(utf16 ''toString'', Num (Fin 1))]),
                              (utf16 ''cny_24h_change'', Num (Fin 1))])]) (Fin 0))
         (single_group (utf16 ''crypto'') [\<lparr>symbol = utf16 ''bitcoin'', name = utf16 ''BTC''\<rparr>]) [])
   = Inl TypeError"
proof -
  let ?W = "W_const (Obj [(utf16 ''bitcoin'',
                         Obj [(utf16 ''cny'', Obj [(utf16 ''toString'', Num (Fin 1))]),
                              (utf16 ''cny_24h_change'', Num (Fin 1))])]) (Fin 0)"
  have "fetchCrypto ?W (utf16 ''bitcoin'') tr
          = (Some \<lparr>price = Obj [(utf16 ''toString'', Num (Fin 1))], change = Num (Fin 1)\<rparr>,
             tr @ [HttpGet (crypto_request ?W (utf16 ''bitcoin''))])" for tr
    by (simp add: fetchCrypto_def fetchCrypto_try_def catch_null_def axios_get_def W_const_def
        obj_get_def idMap_def get_member_def utf16_def object_prototype_def
        object_prototype_keys_def)
  then show ?thesis
    by (simp add: single_group_def bound_keys_def fetchAllPrices_def group_loop_def run_adapter_def
        cell_def formatPrice_def utf16_def)
qed

text \<open>A body without a quoted string gives \<open>null\<close>.\<close>

lemma fetchChinaStock_no_match:
  assumes "fst (axios_get W (china_request s) tr) = Inr (Str body)" and "match_quoted body = None"
  shows "fst (fetchChinaStock W s tr) = None"
  using assms
  by (auto simp: fetchChinaStock_def fetchChinaStock_try_def catch_null_def axios_get_def)

end
